theory Spec2Isabelle
  imports Complex_Main "HOL-Library.Word"
begin

unbundle bit_operations_syntax

section \<open>Byte buffers and the binary stream\<close>

type_synonym byte = "8 word"
type_synonym buffer = "byte list"

datatype Endianness = Big | Little

text \<open>
  Modelled from the spec: the class \<open>BinaryStream\<close> (package \<open>@serenityjs/binarystream\<close>)
  is not among the sources. The spec fixes what the provider relies on: \<open>writeInt32\<close>
  appends a 32-bit two's-complement integer in the given byte order, \<open>writeInt64\<close> a 64-bit
  one, \<open>writeByte\<close> one byte (the low eight bits of its argument, so that a negative
  subchunk index is stored as a signed byte), \<open>readInt64\<close> consumes eight bytes and fails
  when fewer remain. A stream being written is the list of bytes written so far.
\<close>

definition le_bytes32 :: "32 word \<Rightarrow> buffer" where
  "le_bytes32 w = [ucast w, ucast (drop_bit 8 w), ucast (drop_bit 16 w), ucast (drop_bit 24 w)]"

definition le_bytes64 :: "64 word \<Rightarrow> buffer" where
  "le_bytes64 w =
     [ucast w, ucast (drop_bit 8 w), ucast (drop_bit 16 w), ucast (drop_bit 24 w),
      ucast (drop_bit 32 w), ucast (drop_bit 40 w), ucast (drop_bit 48 w), ucast (drop_bit 56 w)]"

definition writeInt32 :: "int \<Rightarrow> Endianness \<Rightarrow> buffer \<Rightarrow> buffer" where
  "writeInt32 v e stream =
     stream @ (case e of Little \<Rightarrow> le_bytes32 (word_of_int v)
                       | Big \<Rightarrow> rev (le_bytes32 (word_of_int v)))"

definition writeInt64 :: "int \<Rightarrow> Endianness \<Rightarrow> buffer \<Rightarrow> buffer" where
  "writeInt64 v e stream =
     stream @ (case e of Little \<Rightarrow> le_bytes64 (word_of_int v)
                       | Big \<Rightarrow> rev (le_bytes64 (word_of_int v)))"

definition writeByte :: "int \<Rightarrow> buffer \<Rightarrow> buffer" where
  "writeByte v stream = stream @ [word_of_int v]"

definition writeBuffer :: "buffer \<Rightarrow> buffer \<Rightarrow> buffer" where
  "writeBuffer b stream = stream @ b"

definition getBuffer :: "buffer \<Rightarrow> buffer" where
  "getBuffer stream = stream"

definition of_le_bytes64 :: "buffer \<Rightarrow> 64 word" where
  "of_le_bytes64 bs = foldr (\<lambda>b acc. ucast b OR push_bit 8 acc) bs 0"

text \<open>
  \<open>readInt64\<close> with little-endian order on the unread rest of a stream: the signed value
  and the new rest, or \<open>None\<close> where the stream throws because fewer than eight bytes remain.
\<close>

definition readInt64_le :: "buffer \<Rightarrow> (int \<times> buffer) option" where
  "readInt64_le stream =
     (if length stream < 8 then None
      else Some (sint (of_le_bytes64 (take 8 stream)), drop 8 stream))"

definition cursorAtEnd :: "buffer \<Rightarrow> bool" where
  "cursorAtEnd stream = (stream = [])"

definition ascii :: "string \<Rightarrow> buffer" where
  "ascii s = map (\<lambda>c. of_nat (of_char c)) s"

section \<open>Key builders\<close>

text \<open>\<open>LevelDBProvider.buildSubChunkKey(cx, cy, cz, index)\<close>.\<close>

definition buildSubChunkKey :: "int \<Rightarrow> int \<Rightarrow> int \<Rightarrow> int \<Rightarrow> buffer" where
  "buildSubChunkKey cx cy cz index =
     (let stream = [];
          stream = writeInt32 cx Little stream;
          stream = writeInt32 cz Little stream;
          stream = (if index \<noteq> 0 then writeInt32 index Little stream else stream);
          stream = writeByte 0x2f stream;
          stream = writeByte cy stream
      in getBuffer stream)"

text \<open>\<open>LevelDBProvider.buildChunkVersionKey(cx, cz, index)\<close>.\<close>

definition buildChunkVersionKey :: "int \<Rightarrow> int \<Rightarrow> int \<Rightarrow> buffer" where
  "buildChunkVersionKey cx cz index =
     (let stream = [];
          stream = writeInt32 cx Little stream;
          stream = writeInt32 cz Little stream;
          stream = (if index \<noteq> 0 then writeInt32 index Little stream else stream);
          stream = writeByte 0x2c stream
      in getBuffer stream)"

text \<open>
  \<open>LevelDBProvider.buildActorListKey(dimension)\<close>, on the dimension's index. The tag is
  written with the stream's default byte order, big-endian.
\<close>

definition buildActorListKey :: "int \<Rightarrow> buffer" where
  "buildActorListKey index =
     (let stream = [];
          stream = writeInt32 0x64696770 Big stream;
          stream = (if index \<noteq> 0 then writeInt32 index Little stream else stream)
      in getBuffer stream)"

text \<open>\<open>LevelDBProvider.buildActorDataKey(uniqueId)\<close>.\<close>

definition buildActorDataKey :: "int \<Rightarrow> buffer" where
  "buildActorDataKey uniqueId =
     (let stream = [];
          stream = writeBuffer (ascii ''actorprefix'') stream;
          stream = writeInt64 uniqueId Little stream
      in getBuffer stream)"

subsection \<open>The key layouts in the spec's words\<close>

text \<open>
  The layouts of section 4.1 of the spec, written arithmetically: byte \<open>i\<close> of a
  little-endian integer \<open>v\<close> is \<open>v div 256 ^ i mod 256\<close>.
\<close>

definition spec_int32_le :: "int \<Rightarrow> buffer" where
  "spec_int32_le v = map (\<lambda>i. word_of_int (v div 2 ^ (8 * i))) [0, 1, 2, 3]"

definition spec_subchunk_key :: "int \<Rightarrow> int \<Rightarrow> int \<Rightarrow> int \<Rightarrow> buffer" where
  "spec_subchunk_key cx cz cy dim_index =
     spec_int32_le cx @ spec_int32_le cz
       @ (if dim_index = 0 then [] else spec_int32_le dim_index)
       @ [0x2F] @ [word_of_int cy]"

definition spec_chunk_version_key :: "int \<Rightarrow> int \<Rightarrow> int \<Rightarrow> buffer" where
  "spec_chunk_version_key cx cz dim_index =
     spec_int32_le cx @ spec_int32_le cz
       @ (if dim_index = 0 then [] else spec_int32_le dim_index)
       @ [0x2C]"

section \<open>Unique ids\<close>



section \<open>The key-value store\<close>

datatype error =
    NotFound
  | StoreFailure
  | SyntaxError
  | TypeError
  | EntityNotFound int
  | UniqueIdMismatch
  | IdentifierMismatch

text \<open>
  Modelled from the spec: the store (package \<open>@serenityjs/leveldb\<close>) is consumed through
  \<open>get(key) -> bytes | NotFound\<close> and \<open>put(key, bytes)\<close>. A store maps every key to
  what a \<open>get\<close> of it does now: it returns the stored bytes or throws (the key is absent,
  or the read fails). A \<open>put\<close> makes later reads of its key return the bytes put.
\<close>

type_synonym Leveldb = "buffer \<Rightarrow> error + buffer"

definition db_get :: "Leveldb \<Rightarrow> buffer \<Rightarrow> error + buffer" where
  "db_get db key = db key"

definition db_put :: "Leveldb \<Rightarrow> buffer \<Rightarrow> buffer \<Rightarrow> Leveldb" where
  "db_put db key data = db(key := Inr data)"

definition empty_db :: Leveldb where
  "empty_db = (\<lambda>key. Inl NotFound)"

section \<open>JavaScript values and the record codec\<close>

text \<open>
  A JavaScript number is a finite value or one of the three non-finite ones. Finite
  doubles are kept as reals: the codec passes them through untouched (negative zero,
  which the JSON text does not keep, is not told apart from zero).
\<close>

datatype number = Finite real | Infinity | NegInfinity | NaN

text \<open>
  The values an \<open>EntityEntry\<close> or \<open>PlayerEntry\<close> is made of: the JSON-native values,
  bigints and non-finite numbers. An object is the list of its properties in order; the
  objects of the language have distinct keys. A string is kept in UTF-8.
\<close>

datatype jsvalue =
    JNull
  | JBool bool
  | JNumber number
  | JBigInt int
  | JString string
  | JArray "jsvalue list"
  | JObject "(string \<times> jsvalue) list"

text \<open>\<open>BigInt.prototype.toString()\<close>: decimal digits, with a minus sign when negative.\<close>

definition digit_char :: "nat \<Rightarrow> char" where
  "digit_char d = ''0123456789'' ! d"

function decimal :: "nat \<Rightarrow> string" where
  "decimal n = (if n < 10 then [digit_char n] else decimal (n div 10) @ [digit_char (n mod 10)])"
  by pat_completeness auto
termination
  by (relation "measure id") auto

definition bigint_toString :: "int \<Rightarrow> string" where
  "bigint_toString n = (if n < 0 then CHR ''-'' # decimal (nat (- n)) else decimal (nat n))"

text \<open>
  The white space of the language, in UTF-8: the characters U+0009 to U+000D and U+0020
  in one byte, U+00A0 in two, and U+1680, U+2000 to U+200A, U+2028, U+2029, U+202F,
  U+205F, U+3000 and U+FEFF in three.
\<close>

definition whitespace1 :: "char \<Rightarrow> bool" where
  "whitespace1 a = (a \<in> set [CHR 0x09, CHR 0x0A, CHR 0x0B, CHR 0x0C, CHR 0x0D, CHR 0x20])"

definition whitespace2 :: "char \<Rightarrow> char \<Rightarrow> bool" where
  "whitespace2 a b = (a = CHR 0xC2 \<and> b = CHR 0xA0)"

definition whitespace3 :: "char \<Rightarrow> char \<Rightarrow> char \<Rightarrow> bool" where
  "whitespace3 a b c =
     (if a = CHR 0xE1 then b = CHR 0x9A \<and> c = CHR 0x80
      else if a = CHR 0xE2
      then (if b = CHR 0x80
            then c \<in> set [CHR 0x80, CHR 0x81, CHR 0x82, CHR 0x83, CHR 0x84, CHR 0x85, CHR 0x86,
                           CHR 0x87, CHR 0x88, CHR 0x89, CHR 0x8A, CHR 0xA8, CHR 0xA9, CHR 0xAF]
            else b = CHR 0x81 \<and> c = CHR 0x9F)
      else if a = CHR 0xE3 then b = CHR 0x80 \<and> c = CHR 0x80
      else a = CHR 0xEF \<and> b = CHR 0xBB \<and> c = CHR 0xBF)"

text \<open>
  The white space at the start of a string is dropped character by character; the
  predicates say which two and three bytes are one white space character, so that the
  same function drops the white space at the end, on the reversed string.
\<close>

fun strip_whitespace ::
  "(char \<Rightarrow> char \<Rightarrow> bool) \<Rightarrow> (char \<Rightarrow> char \<Rightarrow> char \<Rightarrow> bool) \<Rightarrow> string \<Rightarrow> string" where
  "strip_whitespace w2 w3 (a # b # c # s) =
     (if whitespace1 a then strip_whitespace w2 w3 (b # c # s)
      else if w2 a b then strip_whitespace w2 w3 (c # s)
      else if w3 a b c then strip_whitespace w2 w3 s
      else a # b # c # s)"
| "strip_whitespace w2 w3 [a, b] =
     (if whitespace1 a then strip_whitespace w2 w3 [b]
      else if w2 a b then []
      else [a, b])"
| "strip_whitespace w2 w3 [a] = (if whitespace1 a then [] else [a])"
| "strip_whitespace w2 w3 [] = []"

text \<open>
  \<open>BigInt(string)\<close>, the conversion of the language: surrounding white space is
  dropped, the empty string is 0, then a decimal literal with an optional sign or an
  unsigned literal with the prefix \<open>0x\<close>, \<open>0o\<close> or \<open>0b\<close>; anything else throws a
  \<open>SyntaxError\<close> (\<open>None\<close>).
\<close>

definition trim :: "string \<Rightarrow> string" where
  "trim s =
     rev (strip_whitespace (\<lambda>a b. whitespace2 b a) (\<lambda>a b c. whitespace3 c b a)
            (rev (strip_whitespace whitespace2 whitespace3 s)))"

definition digit_of :: "nat \<Rightarrow> char \<Rightarrow> nat option" where
  "digit_of base c =
     (let code = (of_char c :: nat);
          d = (if 48 \<le> code \<and> code \<le> 57 then Some (code - 48)
               else if 97 \<le> code \<and> code \<le> 102 then Some (code - 87)
               else if 65 \<le> code \<and> code \<le> 70 then Some (code - 55)
               else None)
      in case d of None \<Rightarrow> None | Some v \<Rightarrow> if v < base then Some v else None)"

fun digits_value :: "nat \<Rightarrow> nat \<Rightarrow> string \<Rightarrow> nat option" where
  "digits_value base acc [] = Some acc"
| "digits_value base acc (c # cs) =
     (case digit_of base c of
        None \<Rightarrow> None
      | Some d \<Rightarrow> digits_value base (acc * base + d) cs)"

fun radix_prefix :: "string \<Rightarrow> (nat \<times> string) option" where
  "radix_prefix (c0 # c1 # ds) =
     (if c0 \<noteq> CHR ''0'' then None
      else if c1 = CHR ''x'' \<or> c1 = CHR ''X'' then Some (16, ds)
      else if c1 = CHR ''o'' \<or> c1 = CHR ''O'' then Some (8, ds)
      else if c1 = CHR ''b'' \<or> c1 = CHR ''B'' then Some (2, ds)
      else None)"
| "radix_prefix s = None"

definition unsigned_digits :: "nat \<Rightarrow> string \<Rightarrow> nat option" where
  "unsigned_digits base ds = (if ds = [] then None else digits_value base 0 ds)"

definition StringToBigInt :: "string \<Rightarrow> int option" where
  "StringToBigInt s =
     (let t = trim s
      in if t = [] then Some 0
         else case radix_prefix t of
                Some (base, ds) \<Rightarrow> map_option int (unsigned_digits base ds)
              | None \<Rightarrow>
                  if hd t = CHR ''-'' then map_option (\<lambda>n. - int n) (unsigned_digits 10 (tl t))
                  else if hd t = CHR ''+'' then map_option int (unsigned_digits 10 (tl t))
                  else map_option int (unsigned_digits 10 t))"

text \<open>\<open>value.endsWith(suffix)\<close> and \<open>value.slice(0, -n)\<close> on strings.\<close>

definition endsWith :: "string \<Rightarrow> string \<Rightarrow> bool" where
  "endsWith s suffix =
     (length suffix \<le> length s \<and> drop (length s - length suffix) s = suffix)"

definition slice_0_minus :: "string \<Rightarrow> nat \<Rightarrow> string" where
  "slice_0_minus s n = take (length s - n) s"

text \<open>
  The replacer function passed to \<open>JSON.stringify\<close> in \<open>writeEntity\<close> and
  \<open>writePlayer\<close>.
\<close>

definition replacer :: "jsvalue \<Rightarrow> jsvalue" where
  "replacer v =
     (case v of
        JBigInt n \<Rightarrow> JString (bigint_toString n @ ''BigInt_t'')
      | JNumber Infinity \<Rightarrow> JString ''Infinity_t''
      | JNumber NegInfinity \<Rightarrow> JString ''-Infinity_t''
      | JNumber NaN \<Rightarrow> JString ''NaN_t''
      | _ \<Rightarrow> v)"

text \<open>
  The reviver function passed to \<open>JSON.parse\<close> in \<open>readEntity\<close> and \<open>readPlayer\<close>.
  \<open>BigInt\<close> throws on a prefix that is no integer literal.
\<close>

definition reviver :: "jsvalue \<Rightarrow> error + jsvalue" where
  "reviver v =
     (case v of
        JString s \<Rightarrow>
          if endsWith s ''BigInt_t''
          then (case StringToBigInt (slice_0_minus s 8) of
                  None \<Rightarrow> Inl SyntaxError
                | Some n \<Rightarrow> Inr (JBigInt n))
          else if s = ''Infinity_t'' then Inr (JNumber Infinity)
          else if s = ''-Infinity_t'' then Inr (JNumber NegInfinity)
          else if s = ''NaN_t'' then Inr (JNumber NaN)
          else Inr v
      | _ \<Rightarrow> Inr v)"

text \<open>
  \<open>JSON.stringify(value, replacer)\<close>, up to the text: the JSON-native tree that the
  text written denotes. The language calls the replacer on every value, from the root
  down; the replacer above returns arrays and objects as they are, and their members are
  then treated in turn. What the replacer returns for a leaf is serialized by the
  language: a non-finite number would become \<open>null\<close> and a bigint would throw a
  \<open>TypeError\<close>.
\<close>

definition serialize_primitive :: "jsvalue \<Rightarrow> error + jsvalue" where
  "serialize_primitive v =
     (case v of
        JBigInt n \<Rightarrow> Inl TypeError
      | JNumber (Finite r) \<Rightarrow> Inr v
      | JNumber _ \<Rightarrow> Inr JNull
      | _ \<Rightarrow> Inr v)"

fun JSON_stringify :: "jsvalue \<Rightarrow> error + jsvalue"
  and stringify_elements :: "jsvalue list \<Rightarrow> error + jsvalue list"
  and stringify_properties :: "(string \<times> jsvalue) list \<Rightarrow> error + (string \<times> jsvalue) list" where
  "JSON_stringify (JArray xs) =
     (case stringify_elements xs of Inl e \<Rightarrow> Inl e | Inr ys \<Rightarrow> Inr (JArray ys))"
| "JSON_stringify (JObject ps) =
     (case stringify_properties ps of Inl e \<Rightarrow> Inl e | Inr qs \<Rightarrow> Inr (JObject qs))"
| "JSON_stringify v = serialize_primitive (replacer v)"
| "stringify_elements [] = Inr []"
| "stringify_elements (x # xs) =
     (case JSON_stringify x of
        Inl e \<Rightarrow> Inl e
      | Inr y \<Rightarrow> (case stringify_elements xs of Inl e \<Rightarrow> Inl e | Inr ys \<Rightarrow> Inr (y # ys)))"
| "stringify_properties [] = Inr []"
| "stringify_properties ((k, x) # ps) =
     (case JSON_stringify x of
        Inl e \<Rightarrow> Inl e
      | Inr y \<Rightarrow> (case stringify_properties ps of Inl e \<Rightarrow> Inl e | Inr qs \<Rightarrow> Inr ((k, y) # qs)))"

text \<open>
  \<open>JSON.parse(text, reviver)\<close>, from the tree that the text denotes: the language calls
  the reviver on every value, members before the array or object that holds them.
\<close>

fun JSON_parse :: "jsvalue \<Rightarrow> error + jsvalue"
  and parse_elements :: "jsvalue list \<Rightarrow> error + jsvalue list"
  and parse_properties :: "(string \<times> jsvalue) list \<Rightarrow> error + (string \<times> jsvalue) list" where
  "JSON_parse (JArray xs) =
     (case parse_elements xs of Inl e \<Rightarrow> Inl e | Inr ys \<Rightarrow> reviver (JArray ys))"
| "JSON_parse (JObject ps) =
     (case parse_properties ps of Inl e \<Rightarrow> Inl e | Inr qs \<Rightarrow> reviver (JObject qs))"
| "JSON_parse v = reviver v"
| "parse_elements [] = Inr []"
| "parse_elements (x # xs) =
     (case JSON_parse x of
        Inl e \<Rightarrow> Inl e
      | Inr y \<Rightarrow> (case parse_elements xs of Inl e \<Rightarrow> Inl e | Inr ys \<Rightarrow> Inr (y # ys)))"
| "parse_properties [] = Inr []"
| "parse_properties ((k, x) # ps) =
     (case JSON_parse x of
        Inl e \<Rightarrow> Inl e
      | Inr y \<Rightarrow> (case parse_properties ps of Inl e \<Rightarrow> Inl e | Inr qs \<Rightarrow> Inr ((k, y) # qs)))"

text \<open>
  The round trip of the record codec, \<open>decode(encode(x))\<close>, and the strings on which
  the reviver acts: those ending in the tag and the three sentinels.
\<close>

definition decode_encode :: "jsvalue \<Rightarrow> error + jsvalue" where
  "decode_encode x = (case JSON_stringify x of Inl e \<Rightarrow> Inl e | Inr t \<Rightarrow> JSON_parse t)"

definition tagged :: "string \<Rightarrow> bool" where
  "tagged s = (endsWith s ''BigInt_t'' \<or> s = ''Infinity_t'' \<or> s = ''-Infinity_t'' \<or> s = ''NaN_t'')"

fun untagged_strings :: "jsvalue \<Rightarrow> bool" where
  "untagged_strings (JString s) = (\<not> tagged s)"
| "untagged_strings (JArray xs) = list_all untagged_strings xs"
| "untagged_strings (JObject ps) = list_all (\<lambda>p. untagged_strings (snd p)) ps"
| "untagged_strings v = True"

section \<open>Chunks, subchunks and dimensions\<close>

datatype DimensionType = Overworld | Nether | End

text \<open>
  Modelled from the spec: the classes \<open>SubChunk\<close> and \<open>Chunk\<close> (\<open>../chunk\<close>) are not among
  the sources. A subchunk has an index and opaque block data and is empty when it holds
  no data; a chunk has its coordinates, an ordered sequence of subchunk slots and a dirty
  flag, is empty when all its slots are empty, and \<open>getSubChunk(i)\<close> is its slot \<open>i\<close>, if
  there is one. The codec of a subchunk (\<open>SubChunk.serialize\<close>, \<open>SubChunk.from\<close>) is a
  parameter of the functions that use it; \<open>SubChunk.from\<close> gives \<open>None\<close> where it throws.
\<close>

record SubChunk =
  sc_index :: int
  sc_layers :: "nat list"

definition SubChunk_new :: SubChunk where
  "SubChunk_new = \<lparr>sc_index = 0, sc_layers = []\<rparr>"

definition SubChunk_isEmpty :: "SubChunk \<Rightarrow> bool" where
  "SubChunk_isEmpty subchunk = (sc_layers subchunk = [])"

record Chunk =
  chunk_x :: int
  chunk_z :: int
  chunk_type :: DimensionType
  chunk_subchunks :: "SubChunk list"
  chunk_dirty :: bool

definition Chunk_new :: "int \<Rightarrow> int \<Rightarrow> DimensionType \<Rightarrow> SubChunk list \<Rightarrow> Chunk" where
  "Chunk_new cx cz t subchunks =
     \<lparr>chunk_x = cx, chunk_z = cz, chunk_type = t, chunk_subchunks = subchunks,
      chunk_dirty = False\<rparr>"

definition Chunk_isEmpty :: "Chunk \<Rightarrow> bool" where
  "Chunk_isEmpty chunk = list_all SubChunk_isEmpty (chunk_subchunks chunk)"

definition Chunk_getSubChunk :: "Chunk \<Rightarrow> int \<Rightarrow> SubChunk option" where
  "Chunk_getSubChunk chunk i =
     (if 0 \<le> i \<and> nat i < length (chunk_subchunks chunk)
      then Some (chunk_subchunks chunk ! nat i) else None)"

text \<open>
  A dimension: its index in the world (\<open>dimension.indexOf()\<close>), its identifier, its type and
  its terrain generator (\<open>dimension.generator.apply\<close>), a collaborator.
\<close>

record Dimension =
  dim_index :: int
  dim_identifier :: string
  dim_type :: DimensionType
  dim_generator :: "int \<Rightarrow> int \<Rightarrow> DimensionType \<Rightarrow> Chunk"

section \<open>The chunk store\<close>

text \<open>\<open>writeChunkVersion(cx, cz, dimension, version)\<close>.\<close>

definition writeChunkVersion :: "Leveldb \<Rightarrow> int \<Rightarrow> int \<Rightarrow> Dimension \<Rightarrow> int \<Rightarrow> Leveldb" where
  "writeChunkVersion db cx cz dimension version =
     (let key = buildChunkVersionKey cx cz (dim_index dimension)
      in db_put db key [word_of_int version])"

text \<open>
  \<open>hasChunk(cx, cz, dimension)\<close>: a buffer returned by \<open>get\<close> is truthy, and the \<open>catch\<close>
  turns every failure of \<open>get\<close> into \<open>false\<close>.
\<close>

definition hasChunk :: "Leveldb \<Rightarrow> int \<Rightarrow> int \<Rightarrow> Dimension \<Rightarrow> bool" where
  "hasChunk db cx cz dimension =
     (let key = buildChunkVersionKey cx cz (dim_index dimension)
      in case db_get db key of Inr data \<Rightarrow> True | Inl e \<Rightarrow> False)"

text \<open>
  \<open>readSubChunk(cx, cy, cz, dimension)\<close>: the \<open>catch\<close> covers both a failing \<open>get\<close> and
  a failing \<open>SubChunk.from\<close>.
\<close>

definition readSubChunk ::
  "(buffer \<Rightarrow> SubChunk option) \<Rightarrow> Leveldb \<Rightarrow> int \<Rightarrow> int \<Rightarrow> int \<Rightarrow> Dimension \<Rightarrow> SubChunk" where
  "readSubChunk sc_from db cx cy cz dimension =
     (let key = buildSubChunkKey cx cy cz (dim_index dimension)
      in case db_get db key of
           Inl e \<Rightarrow> SubChunk_new\<lparr>sc_index := cy\<rparr>
         | Inr data \<Rightarrow>
             (case sc_from data of
                None \<Rightarrow> SubChunk_new\<lparr>sc_index := cy\<rparr>
              | Some subchunk \<Rightarrow> subchunk\<lparr>sc_index := cy\<rparr>))"

text \<open>
  \<open>writeSubChunk(subchunk, cx, cy, cz, dimension)\<close>: it sets the index of the subchunk,
  which is the chunk's own object, so the subchunk is returned with the store.
\<close>

definition writeSubChunk ::
  "(SubChunk \<Rightarrow> buffer) \<Rightarrow> Leveldb \<Rightarrow> SubChunk \<Rightarrow> int \<Rightarrow> int \<Rightarrow> int \<Rightarrow> Dimension
     \<Rightarrow> Leveldb \<times> SubChunk" where
  "writeSubChunk serialize db subchunk cx cy cz dimension =
     (let key = buildSubChunkKey cx cy cz (dim_index dimension);
          subchunk = subchunk\<lparr>sc_index := cy\<rparr>
      in (db_put db key (serialize subchunk), subchunk))"

text \<open>The provider: the store and the loaded chunks of each dimension, by chunk hash.\<close>

record LevelDBProvider =
  prov_db :: Leveldb
  prov_chunks :: "int \<Rightarrow> (int \<Rightarrow> Chunk option) option"

text \<open>The loop \<open>for (let cy = -4; cy < 16; cy++)\<close> of \<open>readChunk\<close>.\<close>

function readChunk_loop ::
  "(buffer \<Rightarrow> SubChunk option) \<Rightarrow> Leveldb \<Rightarrow> int \<Rightarrow> int \<Rightarrow> Dimension \<Rightarrow> int
     \<Rightarrow> SubChunk list \<Rightarrow> SubChunk list" where
  "readChunk_loop sc_from db cx cz dimension cy subchunks =
     (if cy < 16
      then readChunk_loop sc_from db cx cz dimension (cy + 1)
             (subchunks @ [readSubChunk sc_from db cx cy cz dimension])
      else subchunks)"
  by pat_completeness auto
termination
  by (relation "measure (\<lambda>(sc_from, db, cx, cz, dimension, cy, subchunks). nat (16 - cy))") auto

text \<open>
  \<open>readChunk(cx, cz, dimension)\<close>. The hash of the chunk coordinates
  (\<open>ChunkCoords.hash\<close>, package \<open>@serenityjs/protocol\<close>) is not among the sources and is the
  parameter \<open>hash\<close>. The map of a dimension's chunks is found by the dimension's index.
\<close>

definition readChunk ::
  "(int \<Rightarrow> int \<Rightarrow> int) \<Rightarrow> (buffer \<Rightarrow> SubChunk option) \<Rightarrow> LevelDBProvider
     \<Rightarrow> int \<Rightarrow> int \<Rightarrow> Dimension \<Rightarrow> Chunk \<times> LevelDBProvider" where
  "readChunk hash sc_from this cx cz dimension =
     (let this = (case prov_chunks this (dim_index dimension) of
                    None \<Rightarrow> this\<lparr>prov_chunks := (prov_chunks this)(dim_index dimension := Some Map.empty)\<rparr>
                  | Some m \<Rightarrow> this);
          chunks = (case prov_chunks this (dim_index dimension) of
                      None \<Rightarrow> Map.empty | Some m \<Rightarrow> m);
          h = hash cx cz
      in case chunks h of
           Some chunk \<Rightarrow> (chunk, this)
         | None \<Rightarrow>
             if hasChunk (prov_db this) cx cz dimension
             then
               let subchunks = readChunk_loop sc_from (prov_db this) cx cz dimension (- 4) [];
                   chunk = Chunk_new cx cz (dim_type dimension) subchunks
               in (chunk, this\<lparr>prov_chunks :=
                            (prov_chunks this)(dim_index dimension := Some (chunks(h := Some chunk)))\<rparr>)
             else
               let chunk = dim_generator dimension cx cz (dim_type dimension)
               in (chunk, this\<lparr>prov_chunks :=
                            (prov_chunks this)(dim_index dimension := Some (chunks(h := Some chunk)))\<rparr>))"

text \<open>The loop \<open>for (let cy = -4; cy < 16; cy++)\<close> of \<open>writeChunk\<close>.\<close>

function writeChunk_loop ::
  "(SubChunk \<Rightarrow> buffer) \<Rightarrow> Dimension \<Rightarrow> int \<Rightarrow> Leveldb \<Rightarrow> Chunk \<Rightarrow> Leveldb \<times> Chunk" where
  "writeChunk_loop serialize dimension cy db chunk =
     (if cy < 16
      then
        (case Chunk_getSubChunk chunk (cy + 4) of
           None \<Rightarrow> writeChunk_loop serialize dimension (cy + 1) db chunk
         | Some subchunk \<Rightarrow>
             if SubChunk_isEmpty subchunk
             then writeChunk_loop serialize dimension (cy + 1) db chunk
             else
               (case writeSubChunk serialize db subchunk (chunk_x chunk) cy (chunk_z chunk) dimension of
                  (db', subchunk') \<Rightarrow>
                    writeChunk_loop serialize dimension (cy + 1) db'
                      (chunk\<lparr>chunk_subchunks :=
                                (chunk_subchunks chunk)[nat (cy + 4) := subchunk']\<rparr>)))
      else (db, chunk))"
  by pat_completeness auto
termination
  by (relation "measure (\<lambda>(serialize, dimension, cy, db, chunk). nat (16 - cy))") auto

text \<open>\<open>writeChunk(chunk, dimension)\<close>, on the store and the chunk.\<close>

definition writeChunk ::
  "(SubChunk \<Rightarrow> buffer) \<Rightarrow> Leveldb \<Rightarrow> Chunk \<Rightarrow> Dimension \<Rightarrow> Leveldb \<times> Chunk" where
  "writeChunk serialize db chunk dimension =
     (if Chunk_isEmpty chunk \<or> \<not> chunk_dirty chunk then (db, chunk)
      else
        let db = writeChunkVersion db (chunk_x chunk) (chunk_z chunk) dimension 40
        in case writeChunk_loop serialize dimension (- 4) db chunk of
             (db, chunk) \<Rightarrow> (db, chunk\<lparr>chunk_dirty := False\<rparr>))"

section \<open>Entity entries\<close>

record Vector3f =
  vec_x :: number
  vec_y :: number
  vec_z :: number

record Rotation =
  rot_yaw :: number
  rot_pitch :: number
  rot_headYaw :: number

text \<open>
  The type \<open>EntityEntry\<close> (\<open>../types\<close>) is not among the sources; its fields are those
  that \<open>Entity.save\<close> fills and \<open>Entity.load\<close> reads. Components are pairs of a string and
  a value; metadata, flags and attributes are pairs of a key and a value.
\<close>

record EntityEntry =
  entry_uniqueId :: int
  entry_identifier :: string
  entry_position :: Vector3f
  entry_rotation :: Rotation
  entry_components :: "(string \<times> jsvalue) list"
  entry_traits :: "string list"
  entry_metadata :: "(jsvalue \<times> jsvalue) list"
  entry_flags :: "(jsvalue \<times> jsvalue) list"
  entry_attributes :: "(jsvalue \<times> jsvalue) list"

text \<open>An entry as the JavaScript object that \<open>Entity.save\<close> builds.\<close>

definition value_of_Vector3f :: "Vector3f \<Rightarrow> jsvalue" where
  "value_of_Vector3f v =
     JObject [(''x'', JNumber (vec_x v)), (''y'', JNumber (vec_y v)), (''z'', JNumber (vec_z v))]"

definition value_of_Rotation :: "Rotation \<Rightarrow> jsvalue" where
  "value_of_Rotation r =
     JObject [(''yaw'', JNumber (rot_yaw r)), (''pitch'', JNumber (rot_pitch r)),
              (''headYaw'', JNumber (rot_headYaw r))]"

definition value_of_pairs :: "(jsvalue \<times> jsvalue) list \<Rightarrow> jsvalue" where
  "value_of_pairs ps = JArray (map (\<lambda>p. JArray [fst p, snd p]) ps)"

definition value_of_EntityEntry :: "EntityEntry \<Rightarrow> jsvalue" where
  "value_of_EntityEntry entry =
     JObject
      [(''uniqueId'', JBigInt (entry_uniqueId entry)),
       (''identifier'', JString (entry_identifier entry)),
       (''position'', value_of_Vector3f (entry_position entry)),
       (''rotation'', value_of_Rotation (entry_rotation entry)),
       (''components'', value_of_pairs (map (\<lambda>p. (JString (fst p), snd p)) (entry_components entry))),
       (''traits'', JArray (map JString (entry_traits entry))),
       (''metadata'', value_of_pairs (entry_metadata entry)),
       (''flags'', value_of_pairs (entry_flags entry)),
       (''attributes'', value_of_pairs (entry_attributes entry))]"













section \<open>The entity store\<close>

text \<open>
  The loop \<open>do uniqueIds.push(stream.readInt64(Endianness.Little)); while
  (!stream.cursorAtEnd())\<close> inside the \<open>try\<close> of \<open>readAvailableEntities\<close>. When
  \<open>readInt64\<close> throws, the \<open>catch\<close> returns \<open>uniqueIds\<close>, the array filled so far.
\<close>

function readAvailableEntities_loop :: "buffer \<Rightarrow> int list \<Rightarrow> int list" where
  "readAvailableEntities_loop stream uniqueIds =
     (case readInt64_le stream of
        None \<Rightarrow> uniqueIds
      | Some (v, stream') \<Rightarrow>
          if \<not> cursorAtEnd stream'
          then readAvailableEntities_loop stream' (uniqueIds @ [v])
          else uniqueIds @ [v])"
  by pat_completeness auto
termination
  by (relation "measure (\<lambda>(stream, uniqueIds). length stream)")
    (auto simp add: readInt64_le_def split: if_splits)

text \<open>
  \<open>readAvailableEntities(dimension)\<close>: a failing \<open>get\<close> is caught as well and gives the
  empty array.
\<close>

definition readAvailableEntities :: "Leveldb \<Rightarrow> Dimension \<Rightarrow> int list" where
  "readAvailableEntities db dimension =
     (let uniqueIds = [];
          key = buildActorListKey (dim_index dimension)
      in case db_get db key of
           Inl e \<Rightarrow> uniqueIds
         | Inr data \<Rightarrow> readAvailableEntities_loop data uniqueIds)"


text \<open>
  \<open>readEntity(uniqueId, dimension)\<close>. The text of the language's \<open>JSON.parse\<close> and
  \<open>JSON.stringify\<close> is not modelled: \<open>JSON_tree\<close> stands for \<open>buffer.toString()\<close> followed
  by the parsing of the text into a tree (a \<open>SyntaxError\<close> when the text is no JSON), and
  \<open>JSON_text\<close> for the writing of a tree as text followed by \<open>Buffer.from\<close>. Both are
  parameters. The result is the parsed data, cast to \<open>EntityEntry\<close> without a check.
\<close>

definition readEntity ::
  "(buffer \<Rightarrow> error + jsvalue) \<Rightarrow> Leveldb \<Rightarrow> int \<Rightarrow> Dimension \<Rightarrow> error + jsvalue" where
  "readEntity JSON_tree db uniqueId dimension =
     (let entities = readAvailableEntities db dimension
      in if uniqueId \<notin> set entities then Inl (EntityNotFound uniqueId)
         else
           let key = buildActorDataKey uniqueId
           in case db_get db key of
                Inl e \<Rightarrow> Inl e
              | Inr buffer \<Rightarrow>
                  (case JSON_tree buffer of
                     Inl e \<Rightarrow> Inl e
                   | Inr tree \<Rightarrow> JSON_parse tree))"

text \<open>
  \<open>writeEntity(entity, dimension)\<close>. The array \<open>entities\<close> is read and extended, and not
  used after that: the only \<open>put\<close> is the one of the record.
\<close>

definition writeEntity ::
  "(jsvalue \<Rightarrow> buffer) \<Rightarrow> Leveldb \<Rightarrow> EntityEntry \<Rightarrow> Dimension \<Rightarrow> error + Leveldb" where
  "writeEntity JSON_text db entity dimension =
     (let entities = readAvailableEntities db dimension;
          entities = (if entry_uniqueId entity \<notin> set entities
                      then entities @ [entry_uniqueId entity] else entities)
      in case JSON_stringify (value_of_EntityEntry entity) of
           Inl e \<Rightarrow> Inl e
         | Inr data \<Rightarrow>
             let buffer = JSON_text data;
                 key = buildActorDataKey (entry_uniqueId entity)
             in Inr (db_put db key buffer))"

section \<open>Entities\<close>

record EntityType =
  type_identifier :: string
  type_network :: int

text \<open>
  Modelled from the spec: the trait classes and the entity palette are not among the
  sources. A trait type has an identifier; its constructor attaches the trait to the
  entity under that identifier or throws, and the \<open>onSpawn\<close> hook of an attached trait
  returns or throws. The palette gives the entity type of an identifier
  (\<open>EntityType.get\<close>), the trait type of an identifier (\<open>entityPalette.traits\<close>) and the
  traits registered for an entity type (\<open>getRegistryFor\<close>).
\<close>

record TraitType =
  trait_identifier :: string
  trait_constructs :: bool
  trait_onSpawn :: bool

record Palette =
  EntityType_get :: "string \<Rightarrow> EntityType option"
  palette_traits :: "string \<Rightarrow> TraitType option"
  palette_registry :: "string \<Rightarrow> TraitType list"

text \<open>
  The state of an entity that \<open>load\<close> and \<open>spawn\<close> read or write. The maps of an entity
  are lists of pairs in insertion order.
\<close>

record Entity =
  ent_type :: EntityType
  ent_runtimeId :: int
  ent_uniqueId :: int
  ent_position :: Vector3f
  ent_rotation :: Rotation
  ent_traits :: "TraitType list"
  ent_components :: "(string \<times> jsvalue) list"
  ent_metadata :: "(jsvalue \<times> jsvalue) list"
  ent_flags :: "(jsvalue \<times> jsvalue) list"
  ent_attributes :: "(jsvalue \<times> jsvalue) list"
  ent_dimension :: int
  ent_isAlive :: bool

text \<open>\<open>if (!map.has(key)) map.set(key, value)\<close>.\<close>

definition set_if_absent :: "'k \<times> 'v \<Rightarrow> ('k \<times> 'v) list \<Rightarrow> ('k \<times> 'v) list" where
  "set_if_absent kv m = (if map_of m (fst kv) = None then m @ [kv] else m)"

text \<open>
  \<open>Entity.addTrait(trait)\<close>, on the entity and the output of the loggers. A constructor
  that throws is caught and logged.
\<close>

definition addTrait :: "Palette \<Rightarrow> TraitType \<Rightarrow> Entity \<times> string list \<Rightarrow> Entity \<times> string list" where
  "addTrait palette trait s =
     (case s of (this, logs) \<Rightarrow>
        if trait_identifier trait \<in> set (map trait_identifier (ent_traits this)) then (this, logs)
        else
          let logs = (if palette_traits palette (trait_identifier trait) = None
                     then logs @ [''warn: trait not in the palette: '' @ trait_identifier trait]
                     else logs)
          in if trait_constructs trait
             then (this\<lparr>ent_traits := ent_traits this @ [trait]\<rparr>, logs)
             else (this, logs @ [''error: failed to add trait '' @ trait_identifier trait]))"

text \<open>The body of the loop over \<open>entry.traits\<close> in \<open>Entity.load\<close>.\<close>

definition load_trait :: "Palette \<Rightarrow> string \<Rightarrow> Entity \<times> string list \<Rightarrow> Entity \<times> string list" where
  "load_trait palette trait s =
     (case palette_traits palette trait of
        None \<Rightarrow> (fst s, snd s @ [''error: failed to load trait '' @ trait])
      | Some traitType \<Rightarrow> addTrait palette traitType s)"

text \<open>
  \<open>Entity.load(entry, overwrite)\<close>, on the entity and the output of the loggers: the
  error thrown, if any, and the state the call leaves behind.
\<close>

definition Entity_load ::
  "Palette \<Rightarrow> EntityEntry \<Rightarrow> bool \<Rightarrow> Entity \<times> string list
     \<Rightarrow> error option \<times> (Entity \<times> string list)" where
  "Entity_load palette entry overwrite s =
     (case s of (this, logs) \<Rightarrow>
        if entry_uniqueId entry \<noteq> ent_uniqueId this then (Some UniqueIdMismatch, (this, logs))
        else if entry_identifier entry \<noteq> type_identifier (ent_type this)
        then (Some IdentifierMismatch, (this, logs))
        else
          let this = this\<lparr>ent_position := entry_position entry,
                          ent_rotation := entry_rotation entry\<rparr>;
              this = (if overwrite then this\<lparr>ent_components := [], ent_traits := []\<rparr> else this);
              this = this\<lparr>ent_components :=
                            fold set_if_absent (entry_components entry) (ent_components this)\<rparr>;
              s = fold (load_trait palette) (entry_traits entry) (this, logs);
              this = fst s;
              logs = snd s;
              this = this\<lparr>ent_metadata :=
                            fold set_if_absent (entry_metadata entry) (ent_metadata this)\<rparr>;
              this = this\<lparr>ent_flags :=
                            fold set_if_absent (entry_flags entry) (ent_flags this)\<rparr>;
              this = this\<lparr>ent_attributes :=
                            fold set_if_absent (entry_attributes entry) (ent_attributes this)\<rparr>
          in (None, (this, logs)))"


section \<open>Startup\<close>






section \<open>Example values\<close>

text \<open>Concrete collaborators and values, used to instantiate the theorems below.\<close>

definition example_dimension :: Dimension where
  "example_dimension =
     \<lparr>dim_index = 0, dim_identifier = ''overworld'', dim_type = Overworld,
      dim_generator = (\<lambda>cx cz t. Chunk_new cx cz t [])\<rparr>"

definition example_hash :: "int \<Rightarrow> int \<Rightarrow> int" where
  "example_hash cx cz = push_bit 32 cx OR take_bit 32 cz"

definition example_serialize :: "SubChunk \<Rightarrow> buffer" where
  "example_serialize subchunk = map of_nat (sc_layers subchunk)"

definition example_from :: "buffer \<Rightarrow> SubChunk option" where
  "example_from data = (if data = [] then None else Some \<lparr>sc_index = 0, sc_layers = map unat data\<rparr>)"

definition example_chunk :: Chunk where
  "example_chunk =
     \<lparr>chunk_x = 1, chunk_z = - 2, chunk_type = Overworld,
      chunk_subchunks = [SubChunk_new, \<lparr>sc_index = 0, sc_layers = [7]\<rparr>], chunk_dirty = True\<rparr>"

text \<open>
  Providers: one whose store holds the version marker of chunk \<open>(1, -2)\<close>, one with an
  empty store, one whose store fails on every read, and one with chunk \<open>(5, 5)\<close> cached.
\<close>

definition example_provider :: LevelDBProvider where
  "example_provider =
     \<lparr>prov_db = db_put empty_db (buildChunkVersionKey 1 (- 2) 0) [40],
      prov_chunks = (\<lambda>i. None)\<rparr>"

definition fresh_provider :: LevelDBProvider where
  "fresh_provider = \<lparr>prov_db = empty_db, prov_chunks = (\<lambda>i. None)\<rparr>"

definition failing_provider :: LevelDBProvider where
  "failing_provider =
     \<lparr>prov_db = (\<lambda>key. Inl StoreFailure), prov_chunks = (\<lambda>i. if i = 0 then Some Map.empty else None)\<rparr>"

definition cached_provider :: LevelDBProvider where
  "cached_provider =
     \<lparr>prov_db = empty_db,
      prov_chunks = (\<lambda>i. if i = 0 then Some [example_hash 5 5 \<mapsto> example_chunk] else None)\<rparr>"

text \<open>
  An entry with a unique id beyond 32 bits, a non-finite attribute value and two trait
  identifiers, and the same entry with a component string that equals a sentinel.
\<close>

definition example_entry :: EntityEntry where
  "example_entry =
     \<lparr>entry_uniqueId = 0x100000001, entry_identifier = ''minecraft:cow'',
      entry_position = \<lparr>vec_x = Finite 1, vec_y = Finite 64, vec_z = Finite (- 2)\<rparr>,
      entry_rotation = \<lparr>rot_yaw = Finite 0, rot_pitch = Finite 0, rot_headYaw = Finite 90\<rparr>,
      entry_components = [(''name'', JString ''Daisy'')],
      entry_traits = [''gravity'', ''physics''],
      entry_metadata = [],
      entry_flags = [(JNumber (Finite 48), JBool True)],
      entry_attributes = [(JString ''minecraft:health'', JNumber Infinity)]\<rparr>"

definition tagged_entry :: EntityEntry where
  "tagged_entry = example_entry\<lparr>entry_components := [(''name'', JString ''Infinity_t'')]\<rparr>"

text \<open>
  A stand-in for the text functions of the language in the examples below: every tree is
  written as the same bytes, which read back as the encoded entry with the unique id 2.
\<close>

definition example_JSON_text :: "jsvalue \<Rightarrow> buffer" where
  "example_JSON_text tree = ascii ''json''"

definition example_JSON_tree :: "buffer \<Rightarrow> error + jsvalue" where
  "example_JSON_tree buffer =
     (if buffer = ascii ''json''
      then JSON_stringify (value_of_EntityEntry (example_entry\<lparr>entry_uniqueId := 2\<rparr>))
      else Inl SyntaxError)"

definition example_palette :: Palette where
  "example_palette =
     \<lparr>EntityType_get = (\<lambda>identifier. if identifier = ''minecraft:cow''
         then Some \<lparr>type_identifier = ''minecraft:cow'', type_network = 11\<rparr> else None),
      palette_traits = (\<lambda>identifier. if identifier = ''gravity''
         then Some \<lparr>trait_identifier = ''gravity'', trait_constructs = True, trait_onSpawn = True\<rparr>
         else None),
      palette_registry = (\<lambda>identifier. [])\<rparr>"

definition example_entity :: Entity where
  "example_entity =
     \<lparr>ent_type = \<lparr>type_identifier = ''minecraft:cow'', type_network = 11\<rparr>,
      ent_runtimeId = 1, ent_uniqueId = 7,
      ent_position = \<lparr>vec_x = Finite 0, vec_y = Finite 0, vec_z = Finite 0\<rparr>,
      ent_rotation = \<lparr>rot_yaw = Finite 0, rot_pitch = Finite 0, rot_headYaw = Finite 0\<rparr>,
      ent_traits = [], ent_components = [(''name'', JString ''Bess'')], ent_metadata = [],
      ent_flags = [], ent_attributes = [], ent_dimension = 0, ent_isAlive = False\<rparr>"



section \<open>Properties of the key builders\<close>

lemma ucast_drop_bit_of_int:
  "n \<le> 24 \<Longrightarrow>
   (ucast (drop_bit n (word_of_int v :: 32 word)) :: byte) = word_of_int (v div 2 ^ n)"
  by (intro bit_word_eqI) (auto simp add: bit_simps simp flip: drop_bit_eq_div)

lemma le_bytes32_spec: "le_bytes32 (word_of_int v) = spec_int32_le v"
  by (simp add: le_bytes32_def spec_int32_le_def ucast_drop_bit_of_int
      ucast_drop_bit_of_int [of 0, simplified])

lemma length_le_bytes32 [simp]: "length (le_bytes32 w) = 4"
  by (simp add: le_bytes32_def)

lemma length_le_bytes64 [simp]: "length (le_bytes64 w) = 8"
  by (simp add: le_bytes64_def)

lemma buildSubChunkKey_eq:
  "buildSubChunkKey cx cy cz index =
     le_bytes32 (word_of_int cx) @ le_bytes32 (word_of_int cz)
       @ (if index = 0 then [] else le_bytes32 (word_of_int index)) @ [0x2F, word_of_int cy]"
  by (simp add: buildSubChunkKey_def writeInt32_def writeByte_def getBuffer_def)

lemma buildChunkVersionKey_eq:
  "buildChunkVersionKey cx cz index =
     le_bytes32 (word_of_int cx) @ le_bytes32 (word_of_int cz)
       @ (if index = 0 then [] else le_bytes32 (word_of_int index)) @ [0x2C]"
  by (simp add: buildChunkVersionKey_def writeInt32_def writeByte_def getBuffer_def)

lemma length_buildSubChunkKey:
  "length (buildSubChunkKey cx cy cz index) = (if index = 0 then 10 else 14)"
  by (simp add: buildSubChunkKey_eq)

lemma length_buildChunkVersionKey:
  "length (buildChunkVersionKey cx cz index) = (if index = 0 then 9 else 13)"
  by (simp add: buildChunkVersionKey_eq)

text \<open>
  C8. The key builders produce exactly the byte layouts of the spec: little-endian int32
  \<open>cx\<close>, int32 \<open>cz\<close>, the int32 dimension index only when it is nonzero, then \<open>0x2F\<close> and
  \<open>cy\<close> as one byte (subchunk key) or \<open>0x2C\<close> (version key). The index field takes four
  bytes when present and none for index 0. Being functions of their arguments, the
  builders return the same bytes on every call.
\<close>

theorem key_builders_layout:
  "buildSubChunkKey cx cy cz index = spec_subchunk_key cx cz cy index
   \<and> buildChunkVersionKey cx cz index = spec_chunk_version_key cx cz index
   \<and> length (buildSubChunkKey cx cy cz index) = (if index = 0 then 10 else 14)
   \<and> length (buildChunkVersionKey cx cz index) = (if index = 0 then 9 else 13)"
proof -
  have sub: "buildSubChunkKey cx cy cz index = spec_subchunk_key cx cz cy index"
    by (simp add: buildSubChunkKey_eq spec_subchunk_key_def le_bytes32_spec)
  have ver: "buildChunkVersionKey cx cz index = spec_chunk_version_key cx cz index"
    by (simp add: buildChunkVersionKey_eq spec_chunk_version_key_def le_bytes32_spec)
  show ?thesis
    by (intro conjI sub ver length_buildSubChunkKey length_buildChunkVersionKey)
qed

section \<open>Properties of unique ids\<close>









section \<open>Properties of the chunk store\<close>

declare readChunk_loop.simps [simp del] writeChunk_loop.simps [simp del]

lemma readChunk_loop_eq:
  "readChunk_loop sc_from db cx cz dimension cy subchunks =
     subchunks @ map (\<lambda>cy'. readSubChunk sc_from db cx cy' cz dimension) [cy..15]"
proof (induction sc_from db cx cz dimension cy subchunks rule: readChunk_loop.induct)
  case (1 sc_from db cx cz dimension cy subchunks)
  show ?case
  proof (cases "cy < 16")
    case True
    then have "[cy..15] = cy # [cy + 1..15]"
      by (simp add: upto_rec1)
    with True 1 show ?thesis
      by (subst readChunk_loop.simps) simp
  next
    case False
    then show ?thesis
      by (subst readChunk_loop.simps) simp
  qed
qed

lemma sc_index_readSubChunk [simp]: "sc_index (readSubChunk sc_from db cx cy cz dimension) = cy"
  by (simp add: readSubChunk_def split: sum.splits option.splits)

lemma sint_byte_of_int:
  assumes "- 128 \<le> a" and "a < 128"
  shows "sint (word_of_int a :: byte) = a"
proof -
  have "signed_take_bit 7 a = a"
    using assms by (intro signed_take_bit_int_eq_self) simp_all
  then show ?thesis
    by (simp add: sint_sbintrunc')
qed

lemma byte_of_int_inj:
  assumes "- 128 \<le> a" "a < 128" "- 128 \<le> b" "b < 128"
    and "(word_of_int a :: byte) = word_of_int b"
  shows "a = b"
proof -
  have "sint (word_of_int a :: byte) = a" "sint (word_of_int b :: byte) = b"
    using assms(1-4) by (simp_all add: sint_byte_of_int)
  with assms(5) show ?thesis by metis
qed

lemma buildSubChunkKey_inj:
  assumes "- 128 \<le> a" "a < 128" "- 128 \<le> b" "b < 128"
    and "buildSubChunkKey cx a cz i = buildSubChunkKey cx b cz i"
  shows "a = b"
  using assms by (auto simp add: buildSubChunkKey_eq intro: byte_of_int_inj)

lemma version_key_neq_subchunk_key:
  "buildChunkVersionKey cx cz i \<noteq> buildSubChunkKey cx' cy cz' i'"
proof
  assume "buildChunkVersionKey cx cz i = buildSubChunkKey cx' cy cz' i'"
  then have "length (buildChunkVersionKey cx cz i) = length (buildSubChunkKey cx' cy cz' i')"
    by simp
  then show False
    by (simp add: length_buildChunkVersionKey length_buildSubChunkKey split: if_splits)
qed

lemma writeChunk_loop_done:
  "\<not> cy < 16 \<Longrightarrow> writeChunk_loop ser dimension cy db c = (db, c)"
  by (subst writeChunk_loop.simps) simp

lemma writeChunk_loop_skip:
  assumes "cy < 16"
    and "case Chunk_getSubChunk c (cy + 4) of None \<Rightarrow> True | Some sc \<Rightarrow> SubChunk_isEmpty sc"
  shows "writeChunk_loop ser dimension cy db c = writeChunk_loop ser dimension (cy + 1) db c"
  using assms by (subst writeChunk_loop.simps) (simp split: option.splits)

lemma writeChunk_loop_write:
  assumes "cy < 16" and "Chunk_getSubChunk c (cy + 4) = Some sc" and "\<not> SubChunk_isEmpty sc"
  shows "writeChunk_loop ser dimension cy db c =
    writeChunk_loop ser dimension (cy + 1)
      (db_put db (buildSubChunkKey (chunk_x c) cy (chunk_z c) (dim_index dimension))
         (ser (sc\<lparr>sc_index := cy\<rparr>)))
      (c\<lparr>chunk_subchunks := (chunk_subchunks c)[nat (cy + 4) := sc\<lparr>sc_index := cy\<rparr>]\<rparr>)"
  using assms by (subst writeChunk_loop.simps) (simp add: writeSubChunk_def Let_def)

lemma writeChunk_loop_cases:
  obtains (finished) "\<not> cy < 16"
  | (skip) "cy < 16"
      "case Chunk_getSubChunk c (cy + 4) of None \<Rightarrow> True | Some sc \<Rightarrow> SubChunk_isEmpty sc"
  | (store) sc where "cy < 16" "Chunk_getSubChunk c (cy + 4) = Some sc" "\<not> SubChunk_isEmpty sc"
  by (cases "Chunk_getSubChunk c (cy + 4)") auto

lemma writeChunk_loop_fields:
  "chunk_dirty (snd (writeChunk_loop ser dimension cy db c)) = chunk_dirty c
   \<and> chunk_x (snd (writeChunk_loop ser dimension cy db c)) = chunk_x c
   \<and> chunk_z (snd (writeChunk_loop ser dimension cy db c)) = chunk_z c"
proof (induction "nat (16 - cy)" arbitrary: cy db c)
  case 0
  then show ?case by (simp add: writeChunk_loop_done)
next
  case (Suc n)
  then have n: "n = nat (16 - (cy + 1))" by simp
  show ?case
  proof (cases rule: writeChunk_loop_cases [where cy = cy and c = c])
    case finished
    then show ?thesis by (simp add: writeChunk_loop_done)
  next
    case skip
    then show ?thesis using Suc.hyps(1) [OF n] by (simp add: writeChunk_loop_skip)
  next
    case (store sc)
    then show ?thesis using Suc.hyps(1) [OF n] by (simp add: writeChunk_loop_write)
  qed
qed

lemma writeChunk_loop_frame:
  assumes "\<forall>cy'. cy \<le> cy' \<and> cy' < 16 \<longrightarrow>
             k \<noteq> buildSubChunkKey (chunk_x c) cy' (chunk_z c) (dim_index dimension)"
  shows "fst (writeChunk_loop ser dimension cy db c) k = db k"
  using assms
proof (induction "nat (16 - cy)" arbitrary: cy db c)
  case 0
  then show ?case by (simp add: writeChunk_loop_done)
next
  case (Suc n)
  then have n: "n = nat (16 - (cy + 1))" by simp
  show ?case
  proof (cases rule: writeChunk_loop_cases [where cy = cy and c = c])
    case finished
    then show ?thesis by (simp add: writeChunk_loop_done)
  next
    case skip
    then show ?thesis using Suc.hyps(1) [OF n] Suc.prems by (simp add: writeChunk_loop_skip)
  next
    case (store sc)
    have "k \<noteq> buildSubChunkKey (chunk_x c) cy (chunk_z c) (dim_index dimension)"
      using Suc.prems store(1) by simp
    then show ?thesis
      using Suc.hyps(1) [OF n] Suc.prems store by (simp add: writeChunk_loop_write db_put_def)
  qed
qed

lemma writeChunk_loop_written:
  assumes "cy \<le> cy'" "cy' < 16" "- 4 \<le> cy"
    and "Chunk_getSubChunk c (cy' + 4) = Some sc" and "\<not> SubChunk_isEmpty sc"
  shows "fst (writeChunk_loop ser dimension cy db c)
           (buildSubChunkKey (chunk_x c) cy' (chunk_z c) (dim_index dimension))
         = Inr (ser (sc\<lparr>sc_index := cy'\<rparr>))"
  using assms
proof (induction "nat (16 - cy)" arbitrary: cy db c)
  case 0
  then show ?case by simp
next
  case (Suc n)
  then have n: "n = nat (16 - (cy + 1))" by simp
  let ?key = "\<lambda>y. buildSubChunkKey (chunk_x c) y (chunk_z c) (dim_index dimension)"
  show ?case
  proof (cases "cy' = cy")
    case True
    let ?c' = "c\<lparr>chunk_subchunks := (chunk_subchunks c)[nat (cy + 4) := sc\<lparr>sc_index := cy\<rparr>]\<rparr>"
    have "\<forall>y. cy + 1 \<le> y \<and> y < 16 \<longrightarrow> ?key cy \<noteq> buildSubChunkKey (chunk_x ?c') y (chunk_z ?c') (dim_index dimension)"
      using Suc.prems by (auto dest!: buildSubChunkKey_inj [rotated -1])
    then have "fst (writeChunk_loop ser dimension (cy + 1)
        (db_put db (?key cy) (ser (sc\<lparr>sc_index := cy\<rparr>))) ?c') (?key cy)
      = db_put db (?key cy) (ser (sc\<lparr>sc_index := cy\<rparr>)) (?key cy)"
      by (rule writeChunk_loop_frame)
    with True Suc.prems show ?thesis
      by (simp add: writeChunk_loop_write db_put_def)
  next
    case False
    with Suc.prems have lt: "cy + 1 \<le> cy'" by simp
    show ?thesis
    proof (cases rule: writeChunk_loop_cases [where cy = cy and c = c])
      case finished
      with Suc.prems show ?thesis by simp
    next
      case skip
      then show ?thesis
        using Suc.hyps(1) [OF n lt] Suc.prems by (simp add: writeChunk_loop_skip)
    next
      case (store sc0)
      let ?c' = "c\<lparr>chunk_subchunks := (chunk_subchunks c)[nat (cy + 4) := sc0\<lparr>sc_index := cy\<rparr>]\<rparr>"
      let ?db' = "db_put db (?key cy) (ser (sc0\<lparr>sc_index := cy\<rparr>))"
      have get': "Chunk_getSubChunk ?c' (cy' + 4) = Some sc"
        using Suc.prems False by (auto simp add: Chunk_getSubChunk_def split: if_splits)
      have "fst (writeChunk_loop ser dimension (cy + 1) ?db' ?c')
          (buildSubChunkKey (chunk_x ?c') cy' (chunk_z ?c') (dim_index dimension))
        = Inr (ser (sc\<lparr>sc_index := cy'\<rparr>))"
        by (rule Suc.hyps(1)) (use n lt Suc.prems get' in simp_all)
      then have "fst (writeChunk_loop ser dimension (cy + 1) ?db' ?c') (?key cy')
        = Inr (ser (sc\<lparr>sc_index := cy'\<rparr>))"
        by simp
      with store show ?thesis
        by (simp add: writeChunk_loop_write)
    qed
  qed
qed


lemma writeChunk_dirty:
  assumes "\<not> Chunk_isEmpty chunk" and "chunk_dirty chunk"
  shows "writeChunk ser db chunk dimension =
    (fst (writeChunk_loop ser dimension (- 4)
        (writeChunkVersion db (chunk_x chunk) (chunk_z chunk) dimension 40) chunk),
     (snd (writeChunk_loop ser dimension (- 4)
        (writeChunkVersion db (chunk_x chunk) (chunk_z chunk) dimension 40) chunk))
       \<lparr>chunk_dirty := False\<rparr>)"
  using assms by (simp add: writeChunk_def Let_def split: prod.splits)

lemma writeChunk_clean:
  assumes "Chunk_isEmpty chunk \<or> \<not> chunk_dirty chunk"
  shows "writeChunk ser db chunk dimension = (db, chunk)"
  using assms by (auto simp add: writeChunk_def)

lemma writeChunk_version:
  assumes "\<not> Chunk_isEmpty chunk" and "chunk_dirty chunk"
  shows "fst (writeChunk ser db chunk dimension)
           (buildChunkVersionKey (chunk_x chunk) (chunk_z chunk) (dim_index dimension)) = Inr [40]"
proof -
  let ?k = "buildChunkVersionKey (chunk_x chunk) (chunk_z chunk) (dim_index dimension)"
  let ?db = "writeChunkVersion db (chunk_x chunk) (chunk_z chunk) dimension 40"
  have "fst (writeChunk_loop ser dimension (- 4) ?db chunk) ?k = ?db ?k"
    by (rule writeChunk_loop_frame) (simp add: version_key_neq_subchunk_key)
  with assms show ?thesis
    by (simp add: writeChunk_dirty writeChunkVersion_def db_put_def)
qed

lemma writeChunk_subchunk:
  assumes "\<not> Chunk_isEmpty chunk" and "chunk_dirty chunk"
    and "- 4 \<le> cy" and "cy < 16"
    and "Chunk_getSubChunk chunk (cy + 4) = Some sc" and "\<not> SubChunk_isEmpty sc"
  shows "fst (writeChunk ser db chunk dimension)
           (buildSubChunkKey (chunk_x chunk) cy (chunk_z chunk) (dim_index dimension))
         = Inr (ser (sc\<lparr>sc_index := cy\<rparr>))"
  using assms by (simp add: writeChunk_dirty writeChunk_loop_written)

lemma writeChunk_not_dirty:
  assumes "\<not> Chunk_isEmpty chunk" and "chunk_dirty chunk"
  shows "\<not> chunk_dirty (snd (writeChunk ser db chunk dimension))"
  using assms by (simp add: writeChunk_dirty)

lemma writeChunk_twice:
  "writeChunk ser (fst (writeChunk ser db chunk dimension))
     (snd (writeChunk ser db chunk dimension)) dimension = writeChunk ser db chunk dimension"
proof (cases "Chunk_isEmpty chunk \<or> \<not> chunk_dirty chunk")
  case True
  then show ?thesis by (simp add: writeChunk_clean)
next
  case False
  then have "\<not> chunk_dirty (snd (writeChunk ser db chunk dimension))"
    by (simp add: writeChunk_not_dirty)
  then show ?thesis by (simp add: writeChunk_clean)
qed

lemma writeChunk_frame:
  assumes "k \<noteq> buildChunkVersionKey (chunk_x chunk) (chunk_z chunk) (dim_index dimension)"
    and "\<forall>cy. - 4 \<le> cy \<and> cy < 16 \<longrightarrow>
           k \<noteq> buildSubChunkKey (chunk_x chunk) cy (chunk_z chunk) (dim_index dimension)"
  shows "fst (writeChunk ser db chunk dimension) k = db k"
proof (cases "Chunk_isEmpty chunk \<or> \<not> chunk_dirty chunk")
  case True
  then show ?thesis by (simp add: writeChunk_clean)
next
  case False
  let ?db = "writeChunkVersion db (chunk_x chunk) (chunk_z chunk) dimension 40"
  have "fst (writeChunk_loop ser dimension (- 4) ?db chunk) k = ?db k"
    by (rule writeChunk_loop_frame) (use assms(2) in simp)
  with False assms(1) show ?thesis
    by (simp add: writeChunk_dirty writeChunkVersion_def db_put_def)
qed

text \<open>
  C6. \<open>writeChunk\<close> changes neither the store nor the chunk when the chunk is empty or
  not dirty. On a dirty, non-empty chunk it stores the version marker 40 and every
  non-empty subchunk of the slots for \<open>cy\<close> from -4 to 15, and clears the dirty flag. A
  second call right after the first changes nothing.
\<close>

theorem writeChunk_noop_unless_dirty:
  "(Chunk_isEmpty chunk \<or> \<not> chunk_dirty chunk \<longrightarrow>
      writeChunk ser db chunk dimension = (db, chunk))
   \<and> (\<not> Chunk_isEmpty chunk \<and> chunk_dirty chunk \<longrightarrow>
        \<not> chunk_dirty (snd (writeChunk ser db chunk dimension))
        \<and> fst (writeChunk ser db chunk dimension)
            (buildChunkVersionKey (chunk_x chunk) (chunk_z chunk) (dim_index dimension)) = Inr [40]
        \<and> (\<forall>cy sc. - 4 \<le> cy \<and> cy < 16 \<and> Chunk_getSubChunk chunk (cy + 4) = Some sc
               \<and> \<not> SubChunk_isEmpty sc \<longrightarrow>
             fst (writeChunk ser db chunk dimension)
               (buildSubChunkKey (chunk_x chunk) cy (chunk_z chunk) (dim_index dimension))
             = Inr (ser (sc\<lparr>sc_index := cy\<rparr>))))
   \<and> writeChunk ser (fst (writeChunk ser db chunk dimension))
         (snd (writeChunk ser db chunk dimension)) dimension
       = writeChunk ser db chunk dimension"
proof -
  have clean: "Chunk_isEmpty chunk \<or> \<not> chunk_dirty chunk \<longrightarrow>
      writeChunk ser db chunk dimension = (db, chunk)"
    by (simp add: writeChunk_clean)
  have dirty: "\<not> Chunk_isEmpty chunk \<and> chunk_dirty chunk \<longrightarrow>
        \<not> chunk_dirty (snd (writeChunk ser db chunk dimension))
        \<and> fst (writeChunk ser db chunk dimension)
            (buildChunkVersionKey (chunk_x chunk) (chunk_z chunk) (dim_index dimension)) = Inr [40]
        \<and> (\<forall>cy sc. - 4 \<le> cy \<and> cy < 16 \<and> Chunk_getSubChunk chunk (cy + 4) = Some sc
               \<and> \<not> SubChunk_isEmpty sc \<longrightarrow>
             fst (writeChunk ser db chunk dimension)
               (buildSubChunkKey (chunk_x chunk) cy (chunk_z chunk) (dim_index dimension))
             = Inr (ser (sc\<lparr>sc_index := cy\<rparr>)))"
    by (simp add: writeChunk_not_dirty writeChunk_version writeChunk_subchunk)
  from clean dirty writeChunk_twice show ?thesis
    by (intro conjI)
qed

lemma example_chunk_facts:
  "\<not> Chunk_isEmpty example_chunk" "chunk_dirty example_chunk"
  "Chunk_getSubChunk example_chunk (- 3 + 4) = Some \<lparr>sc_index = 0, sc_layers = [7]\<rparr>"
  "\<not> SubChunk_isEmpty \<lparr>sc_index = 0, sc_layers = [7]\<rparr>"
  by (simp_all add: example_chunk_def Chunk_isEmpty_def SubChunk_isEmpty_def SubChunk_new_def
      Chunk_getSubChunk_def)

theorem writeChunk_noop_unless_dirty_witness:
  "\<not> Chunk_isEmpty example_chunk \<and> chunk_dirty example_chunk
   \<and> \<not> chunk_dirty (snd (writeChunk example_serialize empty_db example_chunk example_dimension))
   \<and> fst (writeChunk example_serialize empty_db example_chunk example_dimension)
         (buildChunkVersionKey 1 (- 2) 0) = Inr [40]
   \<and> fst (writeChunk example_serialize empty_db example_chunk example_dimension)
         (buildSubChunkKey 1 (- 3) (- 2) 0) = Inr [7]
   \<and> writeChunk example_serialize empty_db
         (example_chunk\<lparr>chunk_dirty := False\<rparr>) example_dimension
       = (empty_db, example_chunk\<lparr>chunk_dirty := False\<rparr>)"
  using writeChunk_noop_unless_dirty [of example_chunk example_serialize empty_db example_dimension]
    writeChunk_noop_unless_dirty [of "example_chunk\<lparr>chunk_dirty := False\<rparr>"
      example_serialize empty_db example_dimension]
    example_chunk_facts
  by (simp add: example_chunk_def example_dimension_def example_serialize_def)

lemma readChunk_persisted:
  assumes "hasChunk (prov_db this) cx cz dimension"
    and "(case prov_chunks this (dim_index dimension) of None \<Rightarrow> None | Some m \<Rightarrow> m (hash cx cz)) = None"
  shows "chunk_subchunks (fst (readChunk hash sc_from this cx cz dimension)) =
    map (\<lambda>cy. readSubChunk sc_from (prov_db this) cx cy cz dimension) [- 4..15]"
  using assms
  by (auto simp add: readChunk_def Let_def readChunk_loop_eq Chunk_new_def split: option.splits)

lemma length_range: "length [- 4..15::int] = 20"
  by simp

lemma map_sc_index_readSubChunk:
  "map sc_index (map (\<lambda>cy. readSubChunk sc_from db cx cy cz dimension) ys) = ys"
  by (induction ys) simp_all

lemma length_buildActorListKey:
  "length (buildActorListKey index) = (if index = 0 then 4 else 8)"
  by (simp add: buildActorListKey_def writeInt32_def getBuffer_def)

lemma actor_list_key_neq_version_key: "buildActorListKey i \<noteq> buildChunkVersionKey cx cz i'"
proof
  assume "buildActorListKey i = buildChunkVersionKey cx cz i'"
  then have "length (buildActorListKey i) = length (buildChunkVersionKey cx cz i')"
    by simp
  then show False
    by (simp add: length_buildActorListKey length_buildChunkVersionKey split: if_splits)
qed

lemma actor_list_key_neq_subchunk_key: "buildActorListKey i \<noteq> buildSubChunkKey cx cy cz i'"
proof
  assume "buildActorListKey i = buildSubChunkKey cx cy cz i'"
  then have "length (buildActorListKey i) = length (buildSubChunkKey cx cy cz i')"
    by simp
  then show False
    by (simp add: length_buildActorListKey length_buildSubChunkKey split: if_splits)
qed

text \<open>
  C9, as amended. The fixed vertical range has 20 subchunk slots, one for each subchunk
  index from -4 to 15: a chunk assembled from the store has exactly these 20 subchunks,
  in this order, each read from its own key, and \<open>writeChunk\<close> leaves every key other than
  the version key and the subchunk keys of this range as it was.
\<close>

theorem chunk_range_is_20_slots:
  assumes "hasChunk (prov_db this) cx cz dimension"
    and "(case prov_chunks this (dim_index dimension) of None \<Rightarrow> None | Some m \<Rightarrow> m (hash cx cz)) = None"
    and "k \<noteq> buildChunkVersionKey (chunk_x chunk) (chunk_z chunk) (dim_index dimension)"
    and "\<forall>cy. - 4 \<le> cy \<and> cy < 16 \<longrightarrow>
           k \<noteq> buildSubChunkKey (chunk_x chunk) cy (chunk_z chunk) (dim_index dimension)"
  shows "chunk_subchunks (fst (readChunk hash sc_from this cx cz dimension)) =
      map (\<lambda>cy. readSubChunk sc_from (prov_db this) cx cy cz dimension) [- 4..15]
    \<and> length (chunk_subchunks (fst (readChunk hash sc_from this cx cz dimension))) = 20
    \<and> map sc_index (chunk_subchunks (fst (readChunk hash sc_from this cx cz dimension))) = [- 4..15]
    \<and> fst (writeChunk ser db chunk dimension) k = db k"
proof -
  let ?subchunks = "chunk_subchunks (fst (readChunk hash sc_from this cx cz dimension))"
  have eq: "?subchunks = map (\<lambda>cy. readSubChunk sc_from (prov_db this) cx cy cz dimension) [- 4..15]"
    using assms(1,2) by (rule readChunk_persisted)
  have len: "length ?subchunks = 20"
    by (simp only: eq length_map length_range)
  have idx: "map sc_index ?subchunks = [- 4..15]"
    by (simp only: eq map_sc_index_readSubChunk)
  have frame: "fst (writeChunk ser db chunk dimension) k = db k"
    using assms(3,4) by (rule writeChunk_frame)
  from eq len idx frame show ?thesis
    by (intro conjI)
qed

lemma example_provider_facts:
  "hasChunk (prov_db example_provider) 1 (- 2) example_dimension"
  "(case prov_chunks example_provider (dim_index example_dimension) of None \<Rightarrow> None
    | Some m \<Rightarrow> m (example_hash 1 (- 2))) = None"
  by (simp_all add: example_provider_def hasChunk_def db_get_def db_put_def example_dimension_def)

text \<open>
  The claim as stated fails on the number of slots: a chunk read from a store that holds
  its version marker has 20 subchunks, not 16.
\<close>

theorem chunk_range_is_not_16_slots:
  "length (chunk_subchunks (fst (readChunk example_hash example_from example_provider 1 (- 2)
      example_dimension))) \<noteq> 16"
  by (simp add: readChunk_persisted example_provider_facts)

theorem chunk_range_is_20_slots_witness:
  "hasChunk (prov_db example_provider) 1 (- 2) example_dimension
   \<and> length (chunk_subchunks (fst (readChunk example_hash example_from example_provider 1 (- 2)
        example_dimension))) = 20
   \<and> map sc_index (chunk_subchunks (fst (readChunk example_hash example_from example_provider 1 (- 2)
        example_dimension))) = [- 4..15]
   \<and> fst (writeChunk example_serialize empty_db example_chunk example_dimension)
        (buildActorListKey 0) = Inl NotFound"
proof -
  have k1: "buildActorListKey 0 \<noteq>
      buildChunkVersionKey (chunk_x example_chunk) (chunk_z example_chunk) (dim_index example_dimension)"
    by (rule actor_list_key_neq_version_key)
  have k2: "\<forall>cy. - 4 \<le> cy \<and> cy < 16 \<longrightarrow> buildActorListKey 0 \<noteq>
      buildSubChunkKey (chunk_x example_chunk) cy (chunk_z example_chunk) (dim_index example_dimension)"
    by (simp add: actor_list_key_neq_subchunk_key)
  note th = chunk_range_is_20_slots [where this = example_provider and cx = 1 and cz = "- 2"
      and dimension = example_dimension and hash = example_hash and k = "buildActorListKey 0"
      and chunk = example_chunk and sc_from = example_from and ser = example_serialize
      and db = empty_db, OF example_provider_facts k1 k2]
  from th have a: "length (chunk_subchunks (fst (readChunk example_hash example_from
      example_provider 1 (- 2) example_dimension))) = 20"
    by blast
  from th have b: "map sc_index (chunk_subchunks (fst (readChunk example_hash example_from
      example_provider 1 (- 2) example_dimension))) = [- 4..15]"
    by blast
  from th have c: "fst (writeChunk example_serialize empty_db example_chunk example_dimension)
      (buildActorListKey 0) = empty_db (buildActorListKey 0)"
    by blast
  from a b c example_provider_facts(1) show ?thesis
    by (simp only: empty_db_def simp_thms)
qed

text \<open>
  C5. When the read of the version key fails, whether the key is absent or the store
  fails, \<open>hasChunk\<close> answers no and \<open>readChunk\<close> returns without an error: on a cache
  miss the result is the chunk the dimension's generator makes for \<open>(cx, cz)\<close> and the
  dimension's type, entered in the cache under the hash of the coordinates, and the store
  is not touched; a chunk already in the cache is returned as it is.
\<close>

theorem readChunk_generates_when_absent:
  assumes "db_get (prov_db this) (buildChunkVersionKey cx cz (dim_index dimension)) = Inl e"
  shows "\<not> hasChunk (prov_db this) cx cz dimension
    \<and> (prov_chunks this (dim_index dimension) = None \<longrightarrow>
         readChunk hash sc_from this cx cz dimension =
           (dim_generator dimension cx cz (dim_type dimension),
            this\<lparr>prov_chunks := (prov_chunks this)(dim_index dimension :=
               Some (Map.empty(hash cx cz := Some (dim_generator dimension cx cz (dim_type dimension)))))\<rparr>))
    \<and> (\<forall>m. prov_chunks this (dim_index dimension) = Some m \<and> m (hash cx cz) = None \<longrightarrow>
         readChunk hash sc_from this cx cz dimension =
           (dim_generator dimension cx cz (dim_type dimension),
            this\<lparr>prov_chunks := (prov_chunks this)(dim_index dimension :=
               Some (m(hash cx cz := Some (dim_generator dimension cx cz (dim_type dimension)))))\<rparr>))
    \<and> (\<forall>m chunk. prov_chunks this (dim_index dimension) = Some m \<and> m (hash cx cz) = Some chunk \<longrightarrow>
         readChunk hash sc_from this cx cz dimension = (chunk, this))"
proof -
  have no: "\<not> hasChunk (prov_db this) cx cz dimension"
    using assms by (simp add: hasChunk_def)
  then show ?thesis
    by (auto simp add: readChunk_def Let_def)
qed


theorem readChunk_generates_when_absent_witness:
  "readChunk example_hash example_from fresh_provider 5 5 example_dimension =
     (Chunk_new 5 5 Overworld [],
      fresh_provider\<lparr>prov_chunks := (prov_chunks fresh_provider)
         (0 := Some [example_hash 5 5 \<mapsto> Chunk_new 5 5 Overworld []])\<rparr>)
   \<and> \<not> hasChunk (prov_db failing_provider) 5 5 example_dimension
   \<and> readChunk example_hash example_from failing_provider 5 5 example_dimension =
     (Chunk_new 5 5 Overworld [],
      failing_provider\<lparr>prov_chunks := (prov_chunks failing_provider)
         (0 := Some [example_hash 5 5 \<mapsto> Chunk_new 5 5 Overworld []])\<rparr>)
   \<and> readChunk example_hash example_from cached_provider 5 5 example_dimension =
     (example_chunk, cached_provider)"
proof -
  have "db_get (prov_db fresh_provider) (buildChunkVersionKey 5 5 (dim_index example_dimension))
      = Inl NotFound"
    by (simp add: fresh_provider_def db_get_def empty_db_def)
  from readChunk_generates_when_absent [OF this, of example_hash example_from]
  have fresh: "readChunk example_hash example_from fresh_provider 5 5 example_dimension =
     (Chunk_new 5 5 Overworld [],
      fresh_provider\<lparr>prov_chunks := (prov_chunks fresh_provider)
         (0 := Some [example_hash 5 5 \<mapsto> Chunk_new 5 5 Overworld []])\<rparr>)"
    by (simp add: fresh_provider_def example_dimension_def)
  have "db_get (prov_db failing_provider) (buildChunkVersionKey 5 5 (dim_index example_dimension))
      = Inl StoreFailure"
    by (simp add: failing_provider_def db_get_def)
  from readChunk_generates_when_absent [OF this, of example_hash example_from]
  have failing: "\<not> hasChunk (prov_db failing_provider) 5 5 example_dimension
    \<and> readChunk example_hash example_from failing_provider 5 5 example_dimension =
     (Chunk_new 5 5 Overworld [],
      failing_provider\<lparr>prov_chunks := (prov_chunks failing_provider)
         (0 := Some [example_hash 5 5 \<mapsto> Chunk_new 5 5 Overworld []])\<rparr>)"
    by (simp add: failing_provider_def example_dimension_def)
  have "db_get (prov_db cached_provider) (buildChunkVersionKey 5 5 (dim_index example_dimension))
      = Inl NotFound"
    by (simp add: cached_provider_def db_get_def empty_db_def)
  from readChunk_generates_when_absent [OF this, of example_hash example_from]
  have cached: "readChunk example_hash example_from cached_provider 5 5 example_dimension =
     (example_chunk, cached_provider)"
    by (simp add: cached_provider_def example_dimension_def)
  from fresh failing cached show ?thesis
    by (intro conjI) simp_all
qed

section \<open>Properties of the record codec\<close>

lemma digit_of_digit_char: "d < 10 \<Longrightarrow> digit_of 10 (digit_char d) = Some d"
proof -
  assume "d < 10"
  then have "d = 0 \<or> d = 1 \<or> d = 2 \<or> d = 3 \<or> d = 4 \<or> d = 5 \<or> d = 6 \<or> d = 7 \<or> d = 8 \<or> d = 9"
    by arith
  then show ?thesis
    by (elim disjE) (simp_all add: digit_of_def digit_char_def)
qed

lemma digit_char_cases:
  "d < 10 \<Longrightarrow> digit_char d \<in> set ''0123456789''"
  unfolding digit_char_def by (rule nth_mem) simp

declare decimal.simps [simp del]

lemma digits_value_append:
  "digits_value b acc (xs @ ys) =
     (case digits_value b acc xs of None \<Rightarrow> None | Some a \<Rightarrow> digits_value b a ys)"
  by (induction xs arbitrary: acc) (simp_all split: option.splits)

lemma digits_value_decimal: "digits_value 10 0 (decimal n) = Some n"
proof (induction n rule: decimal.induct)
  case (1 n)
  show ?case
  proof (cases "n < 10")
    case True
    then show ?thesis
      by (subst decimal.simps) (simp add: digit_of_digit_char)
  next
    case False
    with 1 show ?thesis
      by (subst decimal.simps) (simp add: digits_value_append digit_of_digit_char)
  qed
qed

lemma set_decimal: "set (decimal n) \<subseteq> set ''0123456789''"
proof (induction n rule: decimal.induct)
  case (1 n)
  show ?case
  proof (cases "n < 10")
    case True
    then show ?thesis
      using digit_char_cases [of n] by (subst decimal.simps) simp
  next
    case False
    with 1 show ?thesis
      using digit_char_cases [of "n mod 10"] by (subst decimal.simps) simp
  qed
qed

lemma decimal_not_Nil: "decimal n \<noteq> []"
  by (subst decimal.simps) simp


lemma whitespace2_bytes:
  "whitespace2 a b \<Longrightarrow> (128::nat) \<le> of_char a \<and> (128::nat) \<le> of_char b"
  by (simp add: whitespace2_def)

lemma whitespace3_bytes:
  "whitespace3 a b c \<Longrightarrow> (128::nat) \<le> of_char a \<and> (128::nat) \<le> of_char c"
  by (auto simp add: whitespace3_def split: if_splits)

lemma plain_ascii:
  assumes "c \<in> set ''-0123456789''"
  shows "(of_char c :: nat) < 128" and "\<not> whitespace1 c"
  using assms by (auto simp add: whitespace1_def)

lemma plain_not_whitespace:
  assumes "c \<in> set ''-0123456789''"
  shows "\<not> whitespace1 c" and "\<not> whitespace2 c b" and "\<not> whitespace2 b c"
    and "\<not> whitespace3 c a b" and "\<not> whitespace3 a b c"
  using plain_ascii [OF assms] whitespace2_bytes [of c b] whitespace2_bytes [of b c]
    whitespace3_bytes [of c a b] whitespace3_bytes [of a b c]
  by (simp_all only: not_le [symmetric]) blast+

lemma strip_whitespace_plain:
  assumes "s \<noteq> [] \<longrightarrow>
    \<not> whitespace1 (hd s) \<and> (\<forall>b. \<not> w2 (hd s) b) \<and> (\<forall>a b. \<not> w3 (hd s) a b)"
  shows "strip_whitespace w2 w3 s = s"
proof (cases s)
  case Nil
  then show ?thesis by simp
next
  case s: (Cons a s1)
  with assms have a: "\<not> whitespace1 a" "\<And>b. \<not> w2 a b" "\<And>b c. \<not> w3 a b c"
    by simp_all
  show ?thesis
  proof (cases s1)
    case Nil
    with s a show ?thesis by simp
  next
    case s1: (Cons b s2)
    show ?thesis
    proof (cases s2)
      case Nil
      with s s1 a show ?thesis by simp
    next
      case (Cons c s3)
      with s s1 a show ?thesis by simp
    qed
  qed
qed

lemma trim_plain:
  assumes "set s \<subseteq> set ''-0123456789''"
  shows "trim s = s"
proof -
  have at_start: "strip_whitespace whitespace2 whitespace3 s = s"
  proof (rule strip_whitespace_plain, intro impI)
    assume "s \<noteq> []"
    then have "hd s \<in> set s"
      by simp
    with assms have "hd s \<in> set ''-0123456789''"
      by blast
    then show "\<not> whitespace1 (hd s) \<and> (\<forall>b. \<not> whitespace2 (hd s) b)
        \<and> (\<forall>a b. \<not> whitespace3 (hd s) a b)"
      by (simp only: plain_not_whitespace simp_thms)
  qed
  have at_end: "strip_whitespace (\<lambda>a b. whitespace2 b a) (\<lambda>a b c. whitespace3 c b a) (rev s) = rev s"
  proof (rule strip_whitespace_plain, intro impI)
    assume "rev s \<noteq> []"
    then have "hd (rev s) \<in> set s"
      by (simp add: hd_rev)
    with assms have "hd (rev s) \<in> set ''-0123456789''"
      by blast
    then show "\<not> whitespace1 (hd (rev s)) \<and> (\<forall>b. \<not> whitespace2 b (hd (rev s)))
        \<and> (\<forall>a b. \<not> whitespace3 b a (hd (rev s)))"
      by (simp only: plain_not_whitespace simp_thms)
  qed
  show ?thesis
    by (simp add: trim_def at_start at_end)
qed

lemma set_decimal_plain: "set (decimal n) \<subseteq> set ''-0123456789''"
  using set_decimal [of n] by (simp add: subset_insertI2)

lemma radix_prefix_digits:
  assumes "set s \<subseteq> set ''0123456789''"
  shows "radix_prefix s = None"
  using assms by (cases s rule: radix_prefix.cases) auto

lemma StringToBigInt_decimal: "StringToBigInt (decimal n) = Some (int n)"
proof -
  have "trim (decimal n) = decimal n"
    by (rule trim_plain) (rule set_decimal_plain)
  moreover have "hd (decimal n) \<in> set ''0123456789''"
    using set_decimal [of n] decimal_not_Nil [of n] by (meson hd_in_set subsetD)
  then have "hd (decimal n) \<noteq> CHR ''-''" and "hd (decimal n) \<noteq> CHR ''+''"
    by auto
  ultimately show ?thesis
    by (simp add: StringToBigInt_def decimal_not_Nil radix_prefix_digits [OF set_decimal]
        unsigned_digits_def digits_value_decimal)
qed

lemma StringToBigInt_minus_decimal: "StringToBigInt (CHR ''-'' # decimal n) = Some (- int n)"
proof -
  have "trim (CHR ''-'' # decimal n) = CHR ''-'' # decimal n"
    using set_decimal_plain [of n] by (intro trim_plain) simp
  moreover have "radix_prefix (CHR ''-'' # decimal n) = None"
    by (cases "decimal n") simp_all
  ultimately show ?thesis
    by (simp add: StringToBigInt_def unsigned_digits_def decimal_not_Nil digits_value_decimal)
qed

lemma StringToBigInt_toString: "StringToBigInt (bigint_toString n) = Some n"
  by (simp add: bigint_toString_def StringToBigInt_decimal StringToBigInt_minus_decimal)

lemma endsWith_append: "endsWith (s @ t) t"
  by (simp add: endsWith_def)

lemma slice_tag: "slice_0_minus (s @ ''BigInt_t'') 8 = s"
  by (simp add: slice_0_minus_def)

lemma reviver_bigint: "reviver (JString (bigint_toString n @ ''BigInt_t'')) = Inr (JBigInt n)"
  by (simp add: reviver_def endsWith_append slice_tag StringToBigInt_toString)

lemma reviver_sentinels:
  "reviver (JString ''Infinity_t'') = Inr (JNumber Infinity)"
  "reviver (JString ''-Infinity_t'') = Inr (JNumber NegInfinity)"
  "reviver (JString ''NaN_t'') = Inr (JNumber NaN)"
  by (simp_all add: reviver_def endsWith_def)

lemma reviver_untagged: "\<not> tagged s \<Longrightarrow> reviver (JString s) = Inr (JString s)"
  by (simp add: reviver_def tagged_def)

lemma reviver_other [simp]:
  "reviver JNull = Inr JNull" "reviver (JBool b) = Inr (JBool b)"
  "reviver (JNumber x) = Inr (JNumber x)" "reviver (JBigInt n) = Inr (JBigInt n)"
  "reviver (JArray xs) = Inr (JArray xs)" "reviver (JObject ps) = Inr (JObject ps)"
  by (simp_all add: reviver_def)

lemma codec_roundtrip:
  "untagged_strings v \<Longrightarrow> \<exists>t. JSON_stringify v = Inr t \<and> JSON_parse t = Inr v"
  "list_all untagged_strings xs \<Longrightarrow>
     \<exists>ts. stringify_elements xs = Inr ts \<and> parse_elements ts = Inr xs"
  "list_all (\<lambda>p. untagged_strings (snd p)) ps \<Longrightarrow>
     \<exists>qs. stringify_properties ps = Inr qs \<and> parse_properties qs = Inr ps"
  by (induction v and xs and ps rule: JSON_stringify_stringify_elements_stringify_properties.induct)
    (auto simp add: replacer_def serialize_primitive_def reviver_sentinels reviver_bigint
      reviver_untagged split: number.splits)

section \<open>Properties of the entity store, of entities and of startup\<close>

lemma JSON_stringify_total:
  "\<exists>t. JSON_stringify v = Inr t"
  "\<exists>ts. stringify_elements xs = Inr ts"
  "\<exists>qs. stringify_properties ps = Inr qs"
  by (induction v and xs and ps rule: JSON_stringify_stringify_elements_stringify_properties.induct)
    (auto simp add: replacer_def serialize_primitive_def split: number.splits)

text \<open>
  The strings excluded below are exactly those that the codec does not give back: a
  string that ends in the tag or equals a sentinel never returns as the same string.
\<close>

lemma tagged_string_not_restored:
  "tagged s \<Longrightarrow> decode_encode (JString s) \<noteq> Inr (JString s)"
  by (auto simp add: decode_encode_def replacer_def serialize_primitive_def reviver_def
      tagged_def endsWith_def split: option.splits)

text \<open>
  C3, as amended. \<open>decode(encode(x)) = x\<close> for every value \<open>x\<close> made of JSON-native
  values, bigints and non-finite numbers, so for every \<open>EntityEntry\<close> and \<open>PlayerEntry\<close>,
  in which no string ends in the tag \<open>BigInt_t\<close> and no string is one of the sentinels
  \<open>Infinity_t\<close>, \<open>-Infinity_t\<close> and \<open>NaN_t\<close>.
\<close>

theorem record_codec_roundtrip:
  "untagged_strings x \<Longrightarrow> decode_encode x = Inr x"
  using codec_roundtrip(1) [of x] by (auto simp add: decode_encode_def)

lemma untagged_example: "untagged_strings (value_of_EntityEntry example_entry)"
  by (simp add: value_of_EntityEntry_def example_entry_def value_of_Vector3f_def
      value_of_Rotation_def value_of_pairs_def tagged_def endsWith_def)

theorem record_codec_roundtrip_witness:
  "untagged_strings (value_of_EntityEntry example_entry)
   \<and> decode_encode (value_of_EntityEntry example_entry) = Inr (value_of_EntityEntry example_entry)"
  using record_codec_roundtrip [OF untagged_example] untagged_example by simp

lemma decode_encode_sentinel: "decode_encode (JString ''Infinity_t'') = Inr (JNumber Infinity)"
  by (simp add: decode_encode_def replacer_def serialize_primitive_def reviver_sentinels)

text \<open>
  The claim as stated fails: a string is JSON-native, and an entry with the component
  string \<open>Infinity_t\<close> does not come back from the codec as it went in.
\<close>

theorem record_codec_roundtrip_fails:
  "decode_encode (value_of_EntityEntry tagged_entry) \<noteq> Inr (value_of_EntityEntry tagged_entry)"
  by (simp add: decode_encode_def value_of_EntityEntry_def tagged_entry_def example_entry_def
      value_of_Vector3f_def value_of_Rotation_def value_of_pairs_def
      replacer_def serialize_primitive_def reviver_sentinels reviver_bigint reviver_untagged
      tagged_def endsWith_def)

declare readAvailableEntities_loop.simps [simp del]

lemma length_buildActorDataKey: "length (buildActorDataKey uniqueId) = 19"
  by (simp add: buildActorDataKey_def writeBuffer_def writeInt64_def getBuffer_def ascii_def)

lemma actor_list_key_neq_data_key: "buildActorListKey i \<noteq> buildActorDataKey uniqueId"
proof
  assume "buildActorListKey i = buildActorDataKey uniqueId"
  then have "length (buildActorListKey i) = length (buildActorDataKey uniqueId)"
    by simp
  then show False
    by (simp add: length_buildActorListKey length_buildActorDataKey split: if_splits)
qed

lemma writeEntity_result:
  "\<exists>data. JSON_stringify (value_of_EntityEntry entity) = Inr data
     \<and> writeEntity JSON_text db entity dimension =
         Inr (db_put db (buildActorDataKey (entry_uniqueId entity)) (JSON_text data))"
  using JSON_stringify_total(1) [of "value_of_EntityEntry entity"]
  by (auto simp add: writeEntity_def Let_def)

lemma readAvailableEntities_put_data:
  "readAvailableEntities (db_put db (buildActorDataKey uniqueId) data) dimension =
     readAvailableEntities db dimension"
  using actor_list_key_neq_data_key [of "dim_index dimension" uniqueId]
  by (simp add: readAvailableEntities_def db_get_def db_put_def)

lemma writeEntity_keeps_list:
  assumes "writeEntity JSON_text db entity dimension = Inr db'"
  shows "readAvailableEntities db' dimension = readAvailableEntities db dimension"
  using assms writeEntity_result [of entity JSON_text db dimension]
  by (auto simp add: readAvailableEntities_put_data)

lemma readAvailableEntities_empty_db: "readAvailableEntities empty_db dimension = []"
  by (simp add: readAvailableEntities_def db_get_def empty_db_def)

text \<open>
  C1. On an empty store, \<open>writeEntity\<close> of an entry with the unique id \<open>0x100000001\<close>
  stores the record under the actor-data key and leaves the persisted actor-id list as it
  was, empty: the \<open>readEntity\<close> that follows fails with the not-found error.
\<close>

theorem writeEntity_does_not_list_the_id:
  "(case writeEntity example_JSON_text empty_db example_entry example_dimension of
      Inl e \<Rightarrow> False
    | Inr db \<Rightarrow>
        readAvailableEntities db example_dimension = []
        \<and> db_get db (buildActorDataKey 0x100000001) = Inr (ascii ''json'')
        \<and> readEntity example_JSON_tree db 0x100000001 example_dimension
            = Inl (EntityNotFound 0x100000001))"
proof -
  obtain data where w: "writeEntity example_JSON_text empty_db example_entry example_dimension =
      Inr (db_put empty_db (buildActorDataKey (entry_uniqueId example_entry)) (example_JSON_text data))"
    using writeEntity_result by blast
  let ?db = "db_put empty_db (buildActorDataKey 0x100000001) (example_JSON_text data)"
  have u: "entry_uniqueId example_entry = 0x100000001"
    by (simp add: example_entry_def)
  have l: "readAvailableEntities ?db example_dimension = []"
    by (simp only: readAvailableEntities_put_data readAvailableEntities_empty_db)
  have g: "db_get ?db (buildActorDataKey 0x100000001) = Inr (ascii ''json'')"
    by (simp add: db_get_def db_put_def example_JSON_text_def)
  have r: "readEntity example_JSON_tree ?db 0x100000001 example_dimension
      = Inl (EntityNotFound 0x100000001)"
    by (simp add: readEntity_def l)
  from l g r show ?thesis
    unfolding w u by simp
qed

lemma readInt64_le_example:
  "readInt64_le [1, 0, 0, 0, 0, 0, 0, 0, 2, 0, 0, 0] = Some (1, [2, 0, 0, 0])"
  by (simp add: readInt64_le_def of_le_bytes64_def)

text \<open>
  C7. On stored bytes of length 12, the eight bytes of the id 1 and four more,
  \<open>readAvailableEntities\<close> returns the list of the id read before the failing read, not
  the empty list.
\<close>

theorem readAvailableEntities_keeps_ids_read:
  "readAvailableEntities
     (db_put empty_db (buildActorListKey 0) [1, 0, 0, 0, 0, 0, 0, 0, 2, 0, 0, 0])
     example_dimension = [1]"
  by (simp add: readAvailableEntities_def db_get_def db_put_def example_dimension_def
      readAvailableEntities_loop.simps [of "[1, 0, 0, 0, 0, 0, 0, 0, 2, 0, 0, 0]"]
      readAvailableEntities_loop.simps [of "[2, 0, 0, 0]"]
      readInt64_le_example cursorAtEnd_def)
    (simp add: readInt64_le_def)

text \<open>
  C10. \<open>Entity.load\<close> throws exactly when the unique id or the identifier of the entry
  differs from the entity's, and then leaves the entity, with its position, rotation,
  components, traits, metadata, flags and attributes, and the output of the loggers as
  they were.
\<close>

theorem Entity_load_rejection_is_atomic:
  "(entry_uniqueId entry \<noteq> ent_uniqueId this
      \<or> entry_identifier entry \<noteq> type_identifier (ent_type this) \<longrightarrow>
      fst (Entity_load palette entry overwrite (this, logs)) \<noteq> None
      \<and> snd (Entity_load palette entry overwrite (this, logs)) = (this, logs))
   \<and> (fst (Entity_load palette entry overwrite (this, logs)) \<noteq> None \<longrightarrow>
        entry_uniqueId entry \<noteq> ent_uniqueId this
        \<or> entry_identifier entry \<noteq> type_identifier (ent_type this))"
proof (intro conjI impI)
  assume "entry_uniqueId entry \<noteq> ent_uniqueId this
    \<or> entry_identifier entry \<noteq> type_identifier (ent_type this)"
  then consider (id_differs) "entry_uniqueId entry \<noteq> ent_uniqueId this"
    | (type_differs) "entry_uniqueId entry = ent_uniqueId this"
        "entry_identifier entry \<noteq> type_identifier (ent_type this)"
    by blast
  then have "Entity_load palette entry overwrite (this, logs) = (Some UniqueIdMismatch, (this, logs))
    \<or> Entity_load palette entry overwrite (this, logs) = (Some IdentifierMismatch, (this, logs))"
  proof cases
    case id_differs
    then show ?thesis by (simp add: Entity_load_def)
  next
    case type_differs
    then show ?thesis by (simp add: Entity_load_def)
  qed
  then show "fst (Entity_load palette entry overwrite (this, logs)) \<noteq> None"
    and "snd (Entity_load palette entry overwrite (this, logs)) = (this, logs)"
    by auto
next
  assume thrown: "fst (Entity_load palette entry overwrite (this, logs)) \<noteq> None"
  show "entry_uniqueId entry \<noteq> ent_uniqueId this
    \<or> entry_identifier entry \<noteq> type_identifier (ent_type this)"
  proof (rule ccontr)
    assume "\<not> (entry_uniqueId entry \<noteq> ent_uniqueId this
      \<or> entry_identifier entry \<noteq> type_identifier (ent_type this))"
    then have "fst (Entity_load palette entry overwrite (this, logs)) = None"
      by (simp add: Entity_load_def Let_def)
    with thrown show False by contradiction
  qed
qed

theorem Entity_load_rejection_is_atomic_witness:
  "entry_uniqueId example_entry \<noteq> ent_uniqueId example_entity
   \<and> fst (Entity_load example_palette example_entry True (example_entity, [])) \<noteq> None
   \<and> snd (Entity_load example_palette example_entry True (example_entity, []))
       = (example_entity, [])
   \<and> fst (Entity_load example_palette (example_entry\<lparr>entry_uniqueId := 7\<rparr>) True
          (example_entity, [])) = None"
proof -
  have m: "entry_uniqueId example_entry \<noteq> ent_uniqueId example_entity"
    by (simp add: example_entry_def example_entity_def)
  have ok: "\<not> (entry_uniqueId (example_entry\<lparr>entry_uniqueId := 7\<rparr>) \<noteq> ent_uniqueId example_entity
      \<or> entry_identifier (example_entry\<lparr>entry_uniqueId := 7\<rparr>)
          \<noteq> type_identifier (ent_type example_entity))"
    by (simp add: example_entry_def example_entity_def)
  from m ok show ?thesis
    using Entity_load_rejection_is_atomic [of example_entry example_entity example_palette True "[]"]
      Entity_load_rejection_is_atomic [of "example_entry\<lparr>entry_uniqueId := 7\<rparr>" example_entity
        example_palette True "[]"]
    by blast
qed































end
